theory Spec2Isabelle
  imports Complex_Main
begin

section \<open>PDF to MP4 converter (figures/make_video.py)\<close>

text \<open>
  The converter is a linear pipeline over three libraries: a PDF rasterizer (PyMuPDF),
  an image library (Pillow) and a video writer (OpenCV). The libraries are not part of the
  repository. Their observable behaviour is kept in an explicit \<open>world\<close> value that
  every function of the program takes and returns: the file system, the documents that are
  open, the standard output, and the decision whether a video writer can be opened.
  Exceptions are values of a sum type; \<open>sys.exit\<close> and an exception that leaves
  \<open>main\<close> are values of the type \<open>outcome\<close>.

  Numbers: \<open>fps\<close> and \<open>dpi\<close> are Python integers (\<open>int\<close>). The page duration
  is a Python float on the command line and the integer 3 in the class default. A float is
  a binary64 value: a rational number, plus or minus infinity, or nan; the product of an
  integer and a float is the exact product rounded to the nearest binary64 value, ties to
  even. The sign of a zero is not kept, since nothing in the program reads it. The
  progress bars (tqdm) only display and are left out.
\<close>

subsection \<open>Python numbers\<close>

datatype pyfloat = Finite rat | PosInf | NegInf | NaN

datatype pynum = PyInt int | PyFloat pyfloat

text \<open>Powers of two with an integer exponent.\<close>

definition pow2 :: "int \<Rightarrow> rat" where
  "pow2 q = (if 0 \<le> q then 2 ^ nat q else 1 / 2 ^ nat (- q))"

text \<open>The position of the leading bit: \<open>ilog2 n\<close> is the floor of the binary logarithm
  of \<open>n\<close> for \<open>n >= 1\<close>.\<close>

function ilog2 :: "int \<Rightarrow> int" where
  "ilog2 n = (if n < 2 then 0 else 1 + ilog2 (n div 2))"
  by pat_completeness auto
termination
  by (relation "measure nat") auto

declare ilog2.simps [simp del]

text \<open>
  The binade of a positive rational \<open>a\<close>: the exponent \<open>e\<close> with
  \<open>2^e <= a < 2^(e+1)\<close>. It is the difference of the leading bit positions of the
  numerator and the denominator, or one less.
\<close>

definition binade :: "rat \<Rightarrow> int" where
  "binade a =
     (let (n, d) = quotient_of a;
          c = ilog2 n - ilog2 d
      in if pow2 c \<le> a then c else c - 1)"

definition round_half_even :: "rat \<Rightarrow> int" where
  "round_half_even y =
     (let f = \<lfloor>y\<rfloor>; d = y - of_int f
      in if d < 1 / 2 then f else if 1 / 2 < d then f + 1 else if even f then f else f + 1)"

text \<open>
  Rounding to binary64: 53 significant bits, the unit in the last place never below
  \<open>2^-1074\<close> (gradual underflow), and infinity when the rounded value needs an exponent
  above 1023.
\<close>

definition round64 :: "rat \<Rightarrow> pyfloat" where
  "round64 x =
     (if x = 0 then Finite 0
      else
        (let a = \<bar>x\<bar>;
             q = max (binade a) (- 1022) - 52;
             m = round_half_even (a / pow2 q)
         in if 1024 \<le> q + ilog2 m then (if 0 < x then PosInf else NegInf)
            else Finite (if 0 < x then of_int m * pow2 q else - (of_int m * pow2 q))))"

text \<open>The product of a finite float and a float.\<close>

fun float_mul :: "rat \<Rightarrow> pyfloat \<Rightarrow> pyfloat" where
  "float_mul a (Finite b) = round64 (a * b)"
| "float_mul a PosInf = (if a = 0 then NaN else if 0 < a then PosInf else NegInf)"
| "float_mul a NegInf = (if a = 0 then NaN else if 0 < a then NegInf else PosInf)"
| "float_mul a NaN = NaN"

definition py_trunc :: "rat \<Rightarrow> int" where
  "py_trunc x = (if x < 0 then \<lceil>x\<rceil> else \<lfloor>x\<rfloor>)"

text \<open>The value of a number that is not an infinity or nan, and the test \<open>x > 0\<close>.\<close>

fun num_val :: "pynum \<Rightarrow> rat option" where
  "num_val (PyInt n) = Some (of_int n)"
| "num_val (PyFloat (Finite x)) = Some x"
| "num_val (PyFloat PosInf) = None"
| "num_val (PyFloat NegInf) = None"
| "num_val (PyFloat NaN) = None"

fun num_pos :: "pynum \<Rightarrow> bool" where
  "num_pos (PyInt n) = (0 < n)"
| "num_pos (PyFloat (Finite x)) = (0 < x)"
| "num_pos (PyFloat PosInf) = True"
| "num_pos (PyFloat NegInf) = False"
| "num_pos (PyFloat NaN) = False"

subsection \<open>Paths (pathlib, POSIX flavour)\<close>

text \<open>
  A \<open>Path\<close> is a flag for the leading slash and the list of its components. Parsing
  drops empty components and single dots, as pathlib does. The stem follows
  \<open>PurePath.stem\<close>: the last component up to, and without, its last dot, provided that
  dot is neither the first nor the last character.
\<close>

record path =
  anchored :: bool
  parts :: "string list"

fun split_sep :: "string \<Rightarrow> string list" where
  "split_sep [] = [[]]"
| "split_sep (c # cs) =
     (if c = CHR ''/'' then [] # split_sep cs
      else (case split_sep cs of
              [] \<Rightarrow> [[c]]
            | x # xs \<Rightarrow> (c # x) # xs))"

definition Path_of :: "string \<Rightarrow> path" where
  "Path_of s =
     \<lparr>anchored = (case s of [] \<Rightarrow> False | c # _ \<Rightarrow> c = CHR ''/''),
      parts = filter (\<lambda>p. p \<noteq> [] \<and> p \<noteq> ''.'') (split_sep s)\<rparr>"

definition path_name :: "path \<Rightarrow> string" where
  "path_name p = (case parts p of [] \<Rightarrow> [] | _ # _ \<Rightarrow> last (parts p))"

text \<open>\<open>str.rfind\<close> for a single character: the last index holding it, or -1.\<close>

fun rfind :: "char \<Rightarrow> string \<Rightarrow> int" where
  "rfind c [] = -1"
| "rfind c (x # xs) =
     (let i = rfind c xs
      in if 0 \<le> i then i + 1 else if x = c then 0 else -1)"

definition stem :: "path \<Rightarrow> string" where
  "stem p =
     (let name = path_name p; i = rfind (CHR ''.'') name
      in if 0 < i \<and> i < int (length name) - 1 then take (nat i) name else name)"

text \<open>\<open>p / s\<close>: an absolute right operand replaces the left one.\<close>

definition joinpath :: "path \<Rightarrow> string \<Rightarrow> path" where
  "joinpath p s =
     (let q = Path_of s
      in if anchored q then q else \<lparr>anchored = anchored p, parts = parts p @ parts q\<rparr>)"

subsection \<open>Images, frames and files\<close>

text \<open>
  Pixel data is symbolic. A page image is the raster the rasterizer produced (its size, its
  mode and an identifier of its pixels); \<open>Resized\<close> is the result of
  \<open>img.resize(size, LANCZOS)\<close>. A frame is the array handed to the writer, tagged with
  the colour conversion that produced it. Two frames are equal exactly when they were made
  the same way from the same raster.
\<close>

datatype mode = RGB | L

datatype image =
    Raster "int \<times> int" mode nat
  | Resized image "int \<times> int"

fun img_size :: "image \<Rightarrow> int \<times> int" where
  "img_size (Raster sz m d) = sz"
| "img_size (Resized img sz) = sz"

fun img_mode :: "image \<Rightarrow> mode" where
  "img_mode (Raster sz m d) = m"
| "img_mode (Resized img sz) = img_mode img"

datatype frame = RGB2BGR image | GRAY2BGR image

fun frame_size :: "frame \<Rightarrow> int \<times> int" where
  "frame_size (RGB2BGR img) = img_size img"
| "frame_size (GRAY2BGR img) = img_size img"

text \<open>
  The exceptions. \<open>ValueError\<close> is the one that the program raises for an empty page
  list; \<open>ValueErrorNaN\<close> is the \<open>ValueError\<close> that \<open>int\<close> raises for nan.
\<close>

datatype pyerr =
    FileNotFoundError path
  | ValueError
  | RuntimeError
  | LibraryError string
  | OverflowError
  | ValueErrorNaN

subsection \<open>Arithmetic that can raise\<close>

text \<open>\<open>float(n)\<close> for an integer: \<open>OverflowError\<close> when it is too large.\<close>

definition int_to_float :: "int \<Rightarrow> pyerr + rat" where
  "int_to_float n = (case round64 (of_int n) of Finite x \<Rightarrow> Inr x | _ \<Rightarrow> Inl OverflowError)"

text \<open>\<open>n * x\<close> for an integer \<open>n\<close>: exact for an integer \<open>x\<close>; for a float
  \<open>x\<close> the integer is converted to a float first.\<close>

fun py_mul :: "int \<Rightarrow> pynum \<Rightarrow> pyerr + pynum" where
  "py_mul n (PyInt m) = Inr (PyInt (n * m))"
| "py_mul n (PyFloat x) =
     (case int_to_float n of
        Inl e \<Rightarrow> Inl e
      | Inr a \<Rightarrow> Inr (PyFloat (float_mul a x)))"

text \<open>\<open>int(x)\<close> truncates towards zero; it raises \<open>OverflowError\<close> for an infinity
  and \<open>ValueError\<close> for nan.\<close>

fun py_int :: "pynum \<Rightarrow> pyerr + int" where
  "py_int (PyInt n) = Inr n"
| "py_int (PyFloat (Finite x)) = Inr (py_trunc x)"
| "py_int (PyFloat PosInf) = Inl OverflowError"
| "py_int (PyFloat NegInf) = Inl OverflowError"
| "py_int (PyFloat NaN) = Inl ValueErrorNaN"

text \<open>
  A page is what rendering it at a given DPI gives: an image, or the exception that
  \<open>load_page\<close>, \<open>get_pixmap\<close>, \<open>tobytes\<close> or \<open>Image.open\<close> raises.
\<close>

datatype page = Page "int \<Rightarrow> pyerr + image"

fun render_page :: "page \<Rightarrow> int \<Rightarrow> pyerr + image" where
  "render_page (Page r) dpi = r dpi"

record video =
  v_fps :: int
  v_size :: "int \<times> int"
  v_frames :: "frame list"
  v_released :: bool

datatype file_content = PdfFile "page list" | VideoFile video | OtherFile

datatype message =
    MsgReadingPdf path
  | MsgPageCount nat
  | MsgCreatingVideo path
  | MsgVideoDone path
  | MsgConvertDone
  | MsgConvertFailed pyerr

record world =
  files :: "path \<Rightarrow> file_content option"
  cwd :: path
  writer_opens :: "path \<Rightarrow> int \<Rightarrow> int \<times> int \<Rightarrow> bool"
  open_docs :: "path list"
  stdout :: "message list"

definition print :: "message \<Rightarrow> world \<Rightarrow> world" where
  "print m w = w\<lparr>stdout := stdout w @ [m]\<rparr>"

subsection \<open>The converter class\<close>

record converter =
  pdf_path :: path
  output_path :: path
  duration_per_page :: pynum
  fps :: int

text \<open>
  \<open>__init__(self, pdf_path, output_path=None, duration_per_page=3, fps=30)\<close>. An
  argument that is left out is \<open>None\<close>. The test \<open>if output_path:\<close> is false for
  \<open>None\<close> and for the empty string.
\<close>

definition default_duration_per_page :: pynum where
  "default_duration_per_page = PyInt 3"

definition default_fps :: int where
  "default_fps = 30"

definition default_dpi :: int where
  "default_dpi = 150"

definition init ::
  "string \<Rightarrow> string option \<Rightarrow> pynum option \<Rightarrow> int option \<Rightarrow> world \<Rightarrow> pyerr + converter" where
  "init pdf out_arg dur f w =
     (let p = Path_of pdf;
          d = (case dur of None \<Rightarrow> default_duration_per_page | Some x \<Rightarrow> x);
          r = (case f of None \<Rightarrow> default_fps | Some x \<Rightarrow> x);
          out = (case out_arg of
                   None \<Rightarrow> joinpath (cwd w) (stem p @ ''.mp4'')
                 | Some s \<Rightarrow> if s \<noteq> [] then Path_of s
                            else joinpath (cwd w) (stem p @ ''.mp4''))
      in if files w p = None then Inl (FileNotFoundError p)
         else Inr \<lparr>pdf_path = p, output_path = out, duration_per_page = d, fps = r\<rparr>)"

subsection \<open>Rasterizer: \<open>pdf_to_images\<close>\<close>

definition fitz_open :: "world \<Rightarrow> path \<Rightarrow> pyerr + page list" where
  "fitz_open w p =
     (case files w p of
        None \<Rightarrow> Inl (LibraryError ''FileNotFoundError'')
      | Some (PdfFile pages) \<Rightarrow> Inr pages
      | Some (VideoFile v) \<Rightarrow> Inl (LibraryError ''FileDataError'')
      | Some OtherFile \<Rightarrow> Inl (LibraryError ''FileDataError''))"

text \<open>The page loop, with the list \<open>images\<close> it appends to.\<close>

fun render_loop :: "page list \<Rightarrow> int \<Rightarrow> image list \<Rightarrow> pyerr + image list" where
  "render_loop [] dpi images = Inr images"
| "render_loop (p # ps) dpi images =
     (case render_page p dpi of
        Inl e \<Rightarrow> Inl e
      | Inr img \<Rightarrow> render_loop ps dpi (images @ [img]))"

definition pdf_to_images ::
  "converter \<Rightarrow> int option \<Rightarrow> world \<Rightarrow> (pyerr + image list) \<times> world" where
  "pdf_to_images self dpi_arg w =
     (let dpi = (case dpi_arg of None \<Rightarrow> default_dpi | Some x \<Rightarrow> x);
          w1 = print (MsgReadingPdf (pdf_path self)) w
      in case fitz_open w1 (pdf_path self) of
           Inl e \<Rightarrow> (Inl e, w1)
         | Inr doc \<Rightarrow>
             (let w2 = w1\<lparr>open_docs := pdf_path self # open_docs w1\<rparr>;
                  w3 = print (MsgPageCount (length doc)) w2
              in case render_loop doc dpi [] of
                   Inl e \<Rightarrow> (Inl e, w3)
                 | Inr images \<Rightarrow>
                     (Inr images, w3\<lparr>open_docs := remove1 (pdf_path self) (open_docs w3)\<rparr>)))"

subsection \<open>Frame composer and video writer: \<open>images_to_video\<close>\<close>

definition make_even :: "int \<Rightarrow> int" where
  "make_even n = (if n mod 2 = 1 then n - 1 else n)"

definition target_size :: "image list \<Rightarrow> int \<times> int" where
  "target_size images =
     (case images of
        [] \<Rightarrow> (0, 0)
      | first_img # _ \<Rightarrow> (make_even (fst (img_size first_img)), make_even (snd (img_size first_img))))"

text \<open>\<open>int(self.fps * self.duration_per_page)\<close>, which can raise.\<close>

definition frames_per_page :: "converter \<Rightarrow> pyerr + int" where
  "frames_per_page self =
     (case py_mul (fps self) (duration_per_page self) of
        Inl e \<Rightarrow> Inl e
      | Inr v \<Rightarrow> py_int v)"

text \<open>
  \<open>np.array\<close> of an RGB image has three axes, of a greyscale image two; the branch on
  the number of axes is the branch on the mode.
\<close>

definition to_bgr :: "image \<Rightarrow> frame" where
  "to_bgr img = (case img_mode img of RGB \<Rightarrow> RGB2BGR img | L \<Rightarrow> GRAY2BGR img)"

definition vw_open :: "path \<Rightarrow> int \<Rightarrow> int \<times> int \<Rightarrow> world \<Rightarrow> world" where
  "vw_open out r sz w =
     w\<lparr>files := (files w)(out \<mapsto>
          VideoFile \<lparr>v_fps = r, v_size = sz, v_frames = [], v_released = False\<rparr>)\<rparr>"

definition vw_write :: "path \<Rightarrow> frame \<Rightarrow> world \<Rightarrow> world" where
  "vw_write out f w =
     (case files w out of
        Some (VideoFile v) \<Rightarrow>
          w\<lparr>files := (files w)(out \<mapsto> VideoFile (v\<lparr>v_frames := v_frames v @ [f]\<rparr>))\<rparr>
      | _ \<Rightarrow> w)"

definition vw_release :: "path \<Rightarrow> world \<Rightarrow> world" where
  "vw_release out w =
     (case files w out of
        Some (VideoFile v) \<Rightarrow>
          w\<lparr>files := (files w)(out \<mapsto> VideoFile (v\<lparr>v_released := True\<rparr>))\<rparr>
      | _ \<Rightarrow> w)"

text \<open>The inner loop \<open>for _ in range(frames_per_page)\<close>.\<close>

fun write_repeat :: "nat \<Rightarrow> frame \<Rightarrow> path \<Rightarrow> world \<Rightarrow> world" where
  "write_repeat 0 f out w = w"
| "write_repeat (Suc n) f out w = write_repeat n f out (vw_write out f w)"

text \<open>The outer loop \<open>for img in images\<close>.\<close>

fun write_pages :: "image list \<Rightarrow> int \<times> int \<Rightarrow> int \<Rightarrow> path \<Rightarrow> world \<Rightarrow> world" where
  "write_pages [] sz k out w = w"
| "write_pages (img # imgs) sz k out w =
     (let img_resized = Resized img sz;
          img_bgr = to_bgr img_resized
      in write_pages imgs sz k out (write_repeat (nat k) img_bgr out w))"

definition images_to_video ::
  "converter \<Rightarrow> image list \<Rightarrow> world \<Rightarrow> (pyerr + unit) \<times> world" where
  "images_to_video self images w =
     (if images = [] then (Inl ValueError, w)
      else
        (let w1 = print (MsgCreatingVideo (output_path self)) w;
             sz = target_size images
         in if \<not> writer_opens w1 (output_path self) (fps self) sz then (Inl RuntimeError, w1)
            else
              (let w2 = vw_open (output_path self) (fps self) sz w1
               in case frames_per_page self of
                    Inl e \<Rightarrow> (Inl e, w2)
                  | Inr k \<Rightarrow>
                      (let w3 = write_pages images sz k (output_path self) w2;
                           w4 = vw_release (output_path self) w3
                       in (Inr (), print (MsgVideoDone (output_path self)) w4)))))"

subsection \<open>Orchestrator and command line\<close>

datatype outcome = Returned | SysExit int | Uncaught pyerr

text \<open>
  The status of the process: 0 when \<open>main\<close> returns, the argument of \<open>sys.exit\<close>, and
  1 when an exception leaves \<open>main\<close> (the interpreter prints a traceback and exits
  with 1).
\<close>

fun exit_status :: "outcome \<Rightarrow> int" where
  "exit_status Returned = 0"
| "exit_status (SysExit n) = n"
| "exit_status (Uncaught e) = 1"

definition convert :: "converter \<Rightarrow> int option \<Rightarrow> world \<Rightarrow> outcome \<times> world" where
  "convert self dpi_arg w =
     (let dpi = (case dpi_arg of None \<Rightarrow> default_dpi | Some x \<Rightarrow> x)
      in case pdf_to_images self (Some dpi) w of
           (Inl e, w1) \<Rightarrow> (SysExit 1, print (MsgConvertFailed e) w1)
         | (Inr images, w1) \<Rightarrow>
             (case images_to_video self images w1 of
                (Inl e, w2) \<Rightarrow> (SysExit 1, print (MsgConvertFailed e) w2)
              | (Inr u, w2) \<Rightarrow> (Returned, print MsgConvertDone w2)))"

text \<open>
  The command line as given (\<open>None\<close> for an option that is absent) and as parsed, with
  the defaults of \<open>add_argument\<close>.
\<close>

record cli =
  cli_pdf_file :: string
  cli_output :: "string option"
  cli_duration :: "pyfloat option"
  cli_fps :: "int option"
  cli_dpi :: "int option"

record args =
  args_pdf_file :: string
  args_output :: "string option"
  args_duration :: pyfloat
  args_fps :: int
  args_dpi :: int

definition parse_args :: "cli \<Rightarrow> args" where
  "parse_args c =
     \<lparr>args_pdf_file = cli_pdf_file c,
      args_output = cli_output c,
      args_duration = (case cli_duration c of None \<Rightarrow> Finite (1 / 2) | Some d \<Rightarrow> d),
      args_fps = (case cli_fps c of None \<Rightarrow> 30 | Some f \<Rightarrow> f),
      args_dpi = (case cli_dpi c of None \<Rightarrow> 300 | Some d \<Rightarrow> d)\<rparr>"

definition main :: "cli \<Rightarrow> world \<Rightarrow> outcome \<times> world" where
  "main c w =
     (let a = parse_args c
      in case init (args_pdf_file a) (args_output a) (Some (PyFloat (args_duration a)))
                (Some (args_fps a)) w of
           Inl e \<Rightarrow> (Uncaught e, w)
         | Inr converter \<Rightarrow> convert converter (Some (args_dpi a)) w)"

subsection \<open>Auxiliary notions for the proofs\<close>

text \<open>
  What the loops of \<open>images_to_video\<close> amount to: every page gives a block of equal
  frames, and the blocks are appended to the video at the output path in page order.
\<close>

definition append_frames :: "path \<Rightarrow> frame list \<Rightarrow> world \<Rightarrow> world" where
  "append_frames out fs w =
     (case files w out of
        Some (VideoFile v) \<Rightarrow>
          w\<lparr>files := (files w)(out \<mapsto> VideoFile (v\<lparr>v_frames := v_frames v @ fs\<rparr>))\<rparr>
      | _ \<Rightarrow> w)"

definition page_frames :: "int \<times> int \<Rightarrow> int \<Rightarrow> image \<Rightarrow> frame list" where
  "page_frames sz k img = replicate (nat k) (to_bgr (Resized img sz))"

definition final_video :: "converter \<Rightarrow> image list \<Rightarrow> int \<Rightarrow> video" where
  "final_video self images k =
     \<lparr>v_fps = fps self,
      v_size = target_size images,
      v_frames = concat (map (page_frames (target_size images) k) images),
      v_released = True\<rparr>"

text \<open>The failure messages among the printed ones.\<close>

fun failures :: "message list \<Rightarrow> pyerr list" where
  "failures [] = []"
| "failures (MsgConvertFailed e # ms) = e # failures ms"
| "failures (m # ms) = failures ms"

subsection \<open>Sample inputs\<close>

text \<open>
  A two-page document whose first page has odd pixel dimensions and whose second page is
  greyscale and of another size; a document whose second page cannot be rendered; a
  document without pages.
\<close>

definition slides_pdf :: path where
  "slides_pdf = \<lparr>anchored = False, parts = [''slides.pdf'']\<rparr>"

definition broken_pdf :: path where
  "broken_pdf = \<lparr>anchored = False, parts = [''broken.pdf'']\<rparr>"

definition empty_pdf :: path where
  "empty_pdf = \<lparr>anchored = False, parts = [''empty.pdf'']\<rparr>"

definition slides_mp4 :: path where
  "slides_mp4 = \<lparr>anchored = True, parts = [''home'', ''user'', ''slides.mp4'']\<rparr>"

definition page_one :: image where
  "page_one = Raster (1241, 1755) RGB 1"

definition page_two :: image where
  "page_two = Raster (800, 601) L 2"

definition slides_pages :: "page list" where
  "slides_pages = [Page (\<lambda>dpi. Inr page_one), Page (\<lambda>dpi. Inr page_two)]"

definition broken_pages :: "page list" where
  "broken_pages = [Page (\<lambda>dpi. Inr page_one), Page (\<lambda>dpi. Inl (LibraryError ''get_pixmap''))]"

definition sample_files :: "path \<Rightarrow> file_content option" where
  "sample_files p =
     (if p = slides_pdf then Some (PdfFile slides_pages)
      else if p = broken_pdf then Some (PdfFile broken_pages)
      else if p = empty_pdf then Some (PdfFile [])
      else None)"

definition sample_world :: world where
  "sample_world =
     \<lparr>files = sample_files,
      cwd = \<lparr>anchored = True, parts = [''home'', ''user'']\<rparr>,
      writer_opens = (\<lambda>p r sz. True),
      open_docs = [],
      stdout = []\<rparr>"

text \<open>The same world with an output location where no video writer can be opened.\<close>

definition closed_world :: world where
  "closed_world = sample_world\<lparr>writer_opens := (\<lambda>p r sz. False)\<rparr>"

definition sample_converter :: "path \<Rightarrow> rat \<Rightarrow> converter" where
  "sample_converter p d =
     \<lparr>pdf_path = p, output_path = slides_mp4, duration_per_page = PyFloat (Finite d),
      fps = 30\<rparr>"

definition sample_cli :: "string \<Rightarrow> rat option \<Rightarrow> cli" where
  "sample_cli name d =
     \<lparr>cli_pdf_file = name, cli_output = None, cli_duration = map_option Finite d,
      cli_fps = None, cli_dpi = None\<rparr>"

text \<open>A command line that gives the duration, the frame rate and the DPI.\<close>

definition sample_cli_with :: "string \<Rightarrow> rat \<Rightarrow> int \<Rightarrow> int \<Rightarrow> cli" where
  "sample_cli_with name d r q =
     \<lparr>cli_pdf_file = name, cli_output = None, cli_duration = Some (Finite d),
      cli_fps = Some r, cli_dpi = Some q\<rparr>"

section \<open>Properties\<close>

subsection \<open>The write loops\<close>

lemma append_frames_Nil: "append_frames out [] w = w"
  by (simp add: append_frames_def fun_upd_idem split: option.splits file_content.splits)

lemma append_frames_append:
  "append_frames out b (append_frames out a w) = append_frames out (a @ b) w"
  by (simp add: append_frames_def split: option.splits file_content.splits)

lemma vw_write_append: "vw_write out f w = append_frames out [f] w"
  by (simp add: vw_write_def append_frames_def)

lemma write_repeat_append: "write_repeat n f out w = append_frames out (replicate n f) w"
proof (induction n arbitrary: w)
  case 0
  show ?case by (simp add: append_frames_Nil)
next
  case (Suc n)
  show ?case
    by (simp add: Suc.IH vw_write_append append_frames_append replicate_append_same
        del: replicate.simps) (simp add: replicate_app_Cons_same)
qed

lemma write_pages_append:
  "write_pages imgs sz k out w = append_frames out (concat (map (page_frames sz k) imgs)) w"
proof (induction imgs arbitrary: w)
  case Nil
  show ?case by (simp add: append_frames_Nil)
next
  case (Cons img imgs)
  show ?case
    by (simp add: Cons.IH write_repeat_append append_frames_append page_frames_def Let_def)
qed

subsection \<open>Blocks of repeated frames\<close>

lemma length_blocks:
  "length (concat (map (page_frames sz k) imgs)) = length imgs * nat k"
  by (induction imgs) (simp_all add: page_frames_def)

lemma nth_blocks:
  "j < length imgs * nat k \<Longrightarrow>
   concat (map (page_frames sz k) imgs) ! j = to_bgr (Resized (imgs ! (j div nat k)) sz)"
proof (induction imgs arbitrary: j)
  case Nil
  then show ?case by simp
next
  case (Cons img imgs)
  have kpos: "0 < nat k" using Cons.prems by (cases "nat k") auto
  show ?case
  proof (cases "j < nat k")
    case True
    then show ?thesis by (simp add: nth_append page_frames_def)
  next
    case False
    then have ge: "nat k \<le> j" by simp
    have lt: "j - nat k < length imgs * nat k" using Cons.prems ge by simp
    have d: "j div nat k = Suc ((j - nat k) div nat k)"
      using ge kpos by (simp add: le_div_geq)
    have "concat (map (page_frames sz k) (img # imgs)) ! j
            = concat (map (page_frames sz k) imgs) ! (j - nat k)"
      using False by (simp add: nth_append page_frames_def)
    also have "\<dots> = to_bgr (Resized (imgs ! ((j - nat k) div nat k)) sz)"
      by (rule Cons.IH [OF lt])
    finally show ?thesis by (simp add: d)
  qed
qed

lemma frame_size_to_bgr: "frame_size (to_bgr img) = img_size img"
  by (simp add: to_bgr_def split: mode.splits)

lemma frame_size_blocks:
  "f \<in> set (concat (map (page_frames sz k) imgs)) \<Longrightarrow> frame_size f = sz"
  by (auto simp: page_frames_def frame_size_to_bgr)

subsection \<open>The steps of the pipeline\<close>

lemma render_loop_all:
  "map (\<lambda>p. render_page p dpi) pages = map Inr imgs \<Longrightarrow>
   render_loop pages dpi acc = Inr (acc @ imgs)"
proof (induction pages arbitrary: acc imgs)
  case Nil
  then show ?case by simp
next
  case (Cons p ps)
  then obtain i rest where imgs: "imgs = i # rest" by (cases imgs) auto
  with Cons.prems have "render_page p dpi = Inr i"
    and "map (\<lambda>p. render_page p dpi) ps = map Inr rest" by auto
  with Cons.IH [of rest "acc @ [i]"] show ?case by (simp add: imgs)
qed


lemma images_to_video_ok:
  assumes "images \<noteq> []"
    and "writer_opens w (output_path self) (fps self) (target_size images)"
    and "frames_per_page self = Inr k"
  shows "images_to_video self images w =
     (Inr (),
      w\<lparr>files := (files w)(output_path self \<mapsto> VideoFile (final_video self images k)),
        stdout := stdout w @ [MsgCreatingVideo (output_path self), MsgVideoDone (output_path self)]\<rparr>)"
  using assms
  by (simp add: images_to_video_def Let_def print_def vw_open_def vw_release_def
      write_pages_append append_frames_def final_video_def)

lemma images_to_video_raises:
  assumes "images \<noteq> []"
    and "writer_opens w (output_path self) (fps self) (target_size images)"
    and "frames_per_page self = Inl e"
  shows "images_to_video self images w =
     (Inl e,
      w\<lparr>files := (files w)(output_path self \<mapsto>
          VideoFile \<lparr>v_fps = fps self, v_size = target_size images, v_frames = [],
            v_released = False\<rparr>),
        stdout := stdout w @ [MsgCreatingVideo (output_path self)]\<rparr>)"
  using assms
  by (simp add: images_to_video_def Let_def print_def vw_open_def)

lemma images_to_video_empty: "images_to_video self [] w = (Inl ValueError, w)"
  by (simp add: images_to_video_def)

lemma pdf_to_images_default:
  "pdf_to_images self (Some (case dpi of None \<Rightarrow> default_dpi | Some x \<Rightarrow> x)) w
     = pdf_to_images self dpi w"
  by (cases dpi) (simp_all add: pdf_to_images_def)

lemma pdf_to_images_raised:
  assumes "files w (pdf_path self) = Some (PdfFile pages)"
    and "render_loop pages (case dpi of None \<Rightarrow> default_dpi | Some x \<Rightarrow> x) [] = Inl e"
  shows "pdf_to_images self dpi w =
     (Inl e,
      w\<lparr>open_docs := pdf_path self # open_docs w,
        stdout := stdout w @ [MsgReadingPdf (pdf_path self), MsgPageCount (length pages)]\<rparr>)"
  using assms by (simp add: pdf_to_images_def Let_def print_def fitz_open_def)

lemma pdf_to_images_rendered:
  assumes "files w (pdf_path self) = Some (PdfFile pages)"
    and "render_loop pages (case dpi of None \<Rightarrow> default_dpi | Some x \<Rightarrow> x) [] = Inr imgs"
  shows "pdf_to_images self dpi w =
     (Inr imgs,
      w\<lparr>stdout := stdout w @ [MsgReadingPdf (pdf_path self), MsgPageCount (length pages)]\<rparr>)"
  using assms by (simp add: pdf_to_images_def Let_def print_def fitz_open_def)

lemma convert_ok:
  assumes "files w (pdf_path self) = Some (PdfFile pages)"
    and "render_loop pages dpi [] = Inr imgs"
    and "imgs \<noteq> []"
    and "writer_opens w (output_path self) (fps self) (target_size imgs)"
    and "frames_per_page self = Inr k"
  shows "convert self (Some dpi) w =
     (Returned,
      w\<lparr>files := (files w)(output_path self \<mapsto> VideoFile (final_video self imgs k)),
        stdout := stdout w @ [MsgReadingPdf (pdf_path self), MsgPageCount (length pages),
                    MsgCreatingVideo (output_path self), MsgVideoDone (output_path self),
                    MsgConvertDone]\<rparr>)"
proof -
  let ?w1 = "w\<lparr>stdout := stdout w @ [MsgReadingPdf (pdf_path self), MsgPageCount (length pages)]\<rparr>"
  have a: "pdf_to_images self (Some dpi) w = (Inr imgs, ?w1)"
    using pdf_to_images_rendered [OF assms(1), of "Some dpi" imgs] assms(2) by simp
  have "writer_opens ?w1 (output_path self) (fps self) (target_size imgs)"
    using assms(4) by simp
  from images_to_video_ok [OF assms(3) this assms(5)]
  show ?thesis by (simp add: convert_def a print_def)
qed

lemma convert_all_rendered:
  assumes "files w (pdf_path self) = Some (PdfFile pages)"
    and "map (\<lambda>p. render_page p dpi) pages = map Inr imgs"
    and "imgs \<noteq> []"
    and "writer_opens w (output_path self) (fps self) (target_size imgs)"
    and "frames_per_page self = Inr k"
  shows "convert self (Some dpi) w =
     (Returned,
      w\<lparr>files := (files w)(output_path self \<mapsto> VideoFile (final_video self imgs k)),
        stdout := stdout w @ [MsgReadingPdf (pdf_path self), MsgPageCount (length pages),
                    MsgCreatingVideo (output_path self), MsgVideoDone (output_path self),
                    MsgConvertDone]\<rparr>)"
  using convert_ok [OF assms(1) _ assms(3,4,5)] render_loop_all [OF assms(2), of "[]"] by simp

lemma convert_default: "convert self None w = convert self (Some default_dpi) w"
  by (simp add: convert_def)

lemma main_init:
  assumes "init (cli_pdf_file c) (cli_output c) (Some (PyFloat (args_duration (parse_args c))))
             (Some (args_fps (parse_args c))) w = Inr self"
  shows "main c w = convert self (Some (args_dpi (parse_args c))) w"
  using assms by (simp add: main_def Let_def parse_args_def)

lemma init_missing:
  "files w (Path_of pdf) = None \<Longrightarrow> init pdf out d r w = Inl (FileNotFoundError (Path_of pdf))"
  by (simp add: init_def Let_def)

lemma init_present:
  "files w (Path_of pdf) \<noteq> None \<Longrightarrow>
   \<exists>self. init pdf out d r w = Inr self \<and> pdf_path self = Path_of pdf"
  by (simp add: init_def Let_def)

subsection \<open>Numbers\<close>

lemma py_trunc_nonneg: "0 \<le> x \<Longrightarrow> py_trunc x = \<lfloor>x\<rfloor>"
  by (simp add: py_trunc_def)

lemma py_trunc_of_int: "py_trunc (of_int n) = n"
  by (simp add: py_trunc_def)

lemma py_trunc_below_one: "x < 1 \<Longrightarrow> py_trunc x \<le> 0"
  by (auto simp: py_trunc_def)

lemma py_trunc_small: "- 1 < x \<Longrightarrow> x < 1 \<Longrightarrow> py_trunc x = 0"
  by (auto simp: py_trunc_def) linarith+

lemma pow2_pos: "0 < pow2 q"
  by (simp add: pow2_def)

lemma round_half_even_nonneg: "0 \<le> y \<Longrightarrow> 0 \<le> round_half_even y"
  by (auto simp: round_half_even_def Let_def)

lemma round64_nonneg:
  assumes "0 \<le> x" and "round64 x = Finite r"
  shows "0 \<le> r"
proof (cases "x = 0")
  case True
  with assms(2) show ?thesis by (simp add: round64_def)
next
  case False
  with assms(1) have pos: "0 < x" by simp
  let ?q = "max (binade \<bar>x\<bar>) (- 1022) - 52"
  have "0 \<le> \<bar>x\<bar> / pow2 ?q" using pow2_pos [of ?q] by simp
  then have "0 \<le> round_half_even (\<bar>x\<bar> / pow2 ?q)" by (rule round_half_even_nonneg)
  then have "0 \<le> rat_of_int (round_half_even (\<bar>x\<bar> / pow2 ?q)) * pow2 ?q"
    using pow2_pos [of ?q] by simp
  moreover have "r = rat_of_int (round_half_even (\<bar>x\<bar> / pow2 ?q)) * pow2 ?q"
    using assms(2) pos False by (simp add: round64_def Let_def split: if_splits)
  ultimately show ?thesis by simp
qed

lemma int_to_float_nonneg: "0 \<le> n \<Longrightarrow> int_to_float n = Inr a \<Longrightarrow> 0 \<le> a"
  using round64_nonneg [of "of_int n" a]
  by (auto simp: int_to_float_def split: pyfloat.splits)

lemma product_nonneg:
  assumes "0 < n" and "num_pos d" and "py_mul n d = Inr v" and "num_val v = Some x"
  shows "0 \<le> x"
proof (cases d)
  case (PyInt m)
  with assms show ?thesis by auto
next
  case (PyFloat f)
  then obtain a where a: "int_to_float n = Inr a" and v: "v = PyFloat (float_mul a f)"
    using assms(3) by (auto split: sum.splits)
  have a0: "0 \<le> a" using int_to_float_nonneg [OF _ a] assms(1) by simp
  show ?thesis
  proof (cases f)
    case (Finite b)
    with assms(2) PyFloat have "0 < b" by simp
    with a0 have "0 \<le> a * b" by simp
    moreover have "round64 (a * b) = Finite x"
      using assms(4) v Finite by (cases "round64 (a * b)") auto
    ultimately show ?thesis by (rule round64_nonneg)
  next
    case PosInf
    with assms(4) v show ?thesis by (auto split: if_splits)
  next
    case NegInf
    with assms(2) PyFloat show ?thesis by simp
  next
    case NaN
    with assms(2) PyFloat show ?thesis by simp
  qed
qed

lemma frames_per_page_val:
  assumes "py_mul (fps self) (duration_per_page self) = Inr v" and "num_val v = Some x"
  shows "frames_per_page self = Inr (py_trunc x)"
proof (cases v)
  case (PyInt n)
  with assms show ?thesis by (auto simp: frames_per_page_def py_trunc_of_int)
next
  case (PyFloat f)
  with assms show ?thesis by (cases f) (auto simp: frames_per_page_def)
qed

subsection \<open>Frame count and frame order\<close>

text \<open>
  Claim C1, as amended. For a PDF with N >= 1 pages that all render, a writer that opens,
  fps > 0 and a duration per page > 0 whose product with fps, as Python computes it, is a
  finite number x (the exact product for an integer duration, the product rounded to
  binary64 for a float duration), the video contains exactly N * floor(x) frames, and frame
  number j is the resized and converted image of page j div floor(x): every page
  contributes that many equal frames, and all frames of a page come before the frames of
  the next page.
\<close>

theorem frames_grouped_by_page:
  assumes "files w (pdf_path self) = Some (PdfFile pages)"
    and "pages \<noteq> []"
    and "map (\<lambda>p. render_page p dpi) pages = map Inr imgs"
    and "writer_opens w (output_path self) (fps self) (target_size imgs)"
    and "0 < fps self"
    and "num_pos (duration_per_page self)"
    and "py_mul (fps self) (duration_per_page self) = Inr v"
    and "num_val v = Some x"
  shows "\<exists>vid. files (snd (convert self (Some dpi) w)) (output_path self) = Some (VideoFile vid)
           \<and> length (v_frames vid) = length pages * nat \<lfloor>x\<rfloor>
           \<and> (\<forall>j < length (v_frames vid).
                 v_frames vid ! j =
                   to_bgr (Resized (imgs ! (j div nat \<lfloor>x\<rfloor>)) (target_size imgs)))"
proof -
  have len: "length imgs = length pages"
    using arg_cong [OF assms(3), of length] by simp
  then have ne: "imgs \<noteq> []" using assms(2) by auto
  have "0 \<le> x" by (rule product_nonneg [OF assms(5,6,7,8)])
  then have k: "frames_per_page self = Inr \<lfloor>x\<rfloor>"
    using frames_per_page_val [OF assms(7,8)] by (simp add: py_trunc_nonneg)
  have c: "files (snd (convert self (Some dpi) w)) (output_path self)
             = Some (VideoFile (final_video self imgs \<lfloor>x\<rfloor>))"
    by (simp add: convert_all_rendered [OF assms(1) assms(3) ne assms(4) k])
  have l: "length (v_frames (final_video self imgs \<lfloor>x\<rfloor>)) = length pages * nat \<lfloor>x\<rfloor>"
    by (simp add: final_video_def length_blocks len)
  have n: "\<forall>j < length (v_frames (final_video self imgs \<lfloor>x\<rfloor>)).
             v_frames (final_video self imgs \<lfloor>x\<rfloor>) ! j =
               to_bgr (Resized (imgs ! (j div nat \<lfloor>x\<rfloor>)) (target_size imgs))"
    using nth_blocks [of _ imgs "\<lfloor>x\<rfloor>" "target_size imgs"]
    by (simp add: final_video_def length_blocks)
  from c l n show ?thesis by blast
qed

text \<open>The sample document: two pages, three frames each.\<close>

lemma sample_files_slides: "files sample_world slides_pdf = Some (PdfFile slides_pages)"
  by (simp add: sample_world_def sample_files_def)

lemma slides_rendered:
  "map (\<lambda>p. render_page p dpi) slides_pages = map Inr [page_one, page_two]"
  by (simp add: slides_pages_def)

lemma sample_target_size: "target_size [page_one, page_two] = (1240, 1754)"
  by (simp add: target_size_def page_one_def make_even_def)

lemma sample_product_eighth:
  "py_mul (fps (sample_converter slides_pdf (1 / 8)))
     (duration_per_page (sample_converter slides_pdf (1 / 8))) = Inr (PyFloat (Finite (15 / 4)))"
  by code_simp

theorem frames_grouped_by_page_witness:
  "files sample_world (pdf_path (sample_converter slides_pdf (1 / 8))) = Some (PdfFile slides_pages)
   \<and> slides_pages \<noteq> []
   \<and> map (\<lambda>p. render_page p 300) slides_pages = map Inr [page_one, page_two]
   \<and> 0 < fps (sample_converter slides_pdf (1 / 8))
   \<and> num_pos (duration_per_page (sample_converter slides_pdf (1 / 8)))
   \<and> py_mul (fps (sample_converter slides_pdf (1 / 8)))
        (duration_per_page (sample_converter slides_pdf (1 / 8))) = Inr (PyFloat (Finite (15 / 4)))
   \<and> (\<exists>v. files (snd (convert (sample_converter slides_pdf (1 / 8)) (Some 300) sample_world))
              slides_mp4 = Some (VideoFile v)
          \<and> length (v_frames v) = 6
          \<and> (\<forall>j < length (v_frames v).
                v_frames v ! j = to_bgr (Resized ([page_one, page_two] ! (j div 3)) (1240, 1754))))"
proof -
  let ?c = "sample_converter slides_pdf (1 / 8)"
  have h1: "files sample_world (pdf_path ?c) = Some (PdfFile slides_pages)"
    by (simp add: sample_converter_def sample_files_slides)
  have h2: "slides_pages \<noteq> []" by (simp add: slides_pages_def)
  have h3: "map (\<lambda>p. render_page p 300) slides_pages = map Inr [page_one, page_two]"
    by (rule slides_rendered)
  have h4: "writer_opens sample_world (output_path ?c) (fps ?c) (target_size [page_one, page_two])"
    by (simp add: sample_world_def)
  have h5: "0 < fps ?c" by (simp add: sample_converter_def)
  have h6: "num_pos (duration_per_page ?c)" by (simp add: sample_converter_def)
  have h7: "py_mul (fps ?c) (duration_per_page ?c) = Inr (PyFloat (Finite (15 / 4)))"
    by (rule sample_product_eighth)
  have h8: "num_val (PyFloat (Finite (15 / 4))) = Some (15 / 4)" by simp
  have fl: "nat \<lfloor>15 / 4 :: rat\<rfloor> = 3" by code_simp
  have out: "output_path ?c = slides_mp4" by (simp add: sample_converter_def)
  have two: "length slides_pages = 2" by (simp add: slides_pages_def)
  from frames_grouped_by_page [OF h1 h2 h3 h4 h5 h6 h7 h8]
  have "\<exists>v. files (snd (convert ?c (Some 300) sample_world)) slides_mp4 = Some (VideoFile v)
          \<and> length (v_frames v) = 6
          \<and> (\<forall>j < length (v_frames v).
                v_frames v ! j = to_bgr (Resized ([page_one, page_two] ! (j div 3)) (1240, 1754)))"
    unfolding fl out two sample_target_size by simp
  with h1 h2 h3 h5 h6 h7 show ?thesis by blast
qed

lemma frames_three_tenths:
  "frames_per_page (sample_converter slides_pdf (5404319552844595 / 18014398509481984)) = Inr 9"
  by code_simp

lemma frames_four_point_one:
  "frames_per_page (sample_converter slides_pdf (2308094809027379 / 562949953421312)) = Inr 122"
  by code_simp

lemma round_three_tenths: "round64 (3 / 10) = Finite (5404319552844595 / 18014398509481984)"
  by code_simp

lemma round_four_point_one: "round64 (41 / 10) = Finite (2308094809027379 / 562949953421312)"
  by code_simp

text \<open>
  The claim as it was stated, with the product of the two numbers, fails for a float
  duration. The binary64 value of 0.3 is slightly below 3/10: the exact product with 30
  has floor 8, but the rounded product is 9.0, and the video of the two-page document has
  18 frames, not 16. Read with the decimal that was typed, the claim fails at 4.1: the
  floor of 30 * 4.1 is 123, and the repeat count is 122.
\<close>

theorem rounded_product_frame_count:
  "round64 (3 / 10) = Finite (5404319552844595 / 18014398509481984)
   \<and> 0 < fps (sample_converter slides_pdf (5404319552844595 / 18014398509481984))
   \<and> num_pos (duration_per_page (sample_converter slides_pdf (5404319552844595 / 18014398509481984)))
   \<and> \<lfloor>rat_of_int (fps (sample_converter slides_pdf (5404319552844595 / 18014398509481984)))
        * (5404319552844595 / 18014398509481984)\<rfloor> = 8
   \<and> files (snd (convert (sample_converter slides_pdf (5404319552844595 / 18014398509481984))
        (Some 300) sample_world)) slides_mp4
       = Some (VideoFile (final_video
           (sample_converter slides_pdf (5404319552844595 / 18014398509481984))
           [page_one, page_two] 9))
   \<and> length (v_frames (final_video
           (sample_converter slides_pdf (5404319552844595 / 18014398509481984))
           [page_one, page_two] 9)) = 18
   \<and> length slides_pages * nat 8 \<noteq> 18
   \<and> round64 (41 / 10) = Finite (2308094809027379 / 562949953421312)
   \<and> frames_per_page (sample_converter slides_pdf (2308094809027379 / 562949953421312)) = Inr 122
   \<and> \<lfloor>rat_of_int (fps (sample_converter slides_pdf (2308094809027379 / 562949953421312)))
        * (41 / 10)\<rfloor> = 123"
proof -
  let ?c = "sample_converter slides_pdf (5404319552844595 / 18014398509481984)"
  have h1: "files sample_world (pdf_path ?c) = Some (PdfFile slides_pages)"
    by (simp add: sample_converter_def sample_files_slides)
  have h4: "writer_opens sample_world (output_path ?c) (fps ?c) (target_size [page_one, page_two])"
    by (simp add: sample_world_def)
  have ne: "[page_one, page_two] \<noteq> []" by simp
  have out: "output_path ?c = slides_mp4" by (simp add: sample_converter_def)
  have c: "files (snd (convert ?c (Some 300) sample_world)) slides_mp4
             = Some (VideoFile (final_video ?c [page_one, page_two] 9))"
    using convert_all_rendered [OF h1 slides_rendered ne h4 frames_three_tenths, of 300]
    by (simp add: out)
  have l: "length (v_frames (final_video ?c [page_one, page_two] 9)) = 18"
    by (simp add: final_video_def page_frames_def)
  have f: "\<lfloor>rat_of_int (fps ?c) * (5404319552844595 / 18014398509481984)\<rfloor> = 8"
    by code_simp
  have g: "\<lfloor>rat_of_int (fps (sample_converter slides_pdf (2308094809027379 / 562949953421312)))
        * (41 / 10)\<rfloor> = 123"
    by code_simp
  have p: "0 < fps ?c" "num_pos (duration_per_page ?c)" by (simp_all add: sample_converter_def)
  have n: "length slides_pages * nat 8 \<noteq> 18" by (simp add: slides_pages_def)
  from round_three_tenths p f c l n round_four_point_one frames_four_point_one g
  show ?thesis by blast
qed

subsection \<open>Frame size\<close>

lemma make_even_even: "even (make_even n)"
  by (simp add: make_even_def) presburger

lemma target_size_first:
  "target_size (first_img # rest)
     = (make_even (fst (img_size first_img)), make_even (snd (img_size first_img)))"
  by (simp add: target_size_def)


lemma blocks_unfold:
  "concat (map (page_frames sz k) imgs)
     = concat (map (\<lambda>img. replicate (nat k) (to_bgr (Resized img sz))) imgs)"
  by (induction imgs) (simp_all add: page_frames_def)

text \<open>
  Claim C2. For a non-empty page sequence and a writer that opens, the size of the video is
  the size of the first page, with width and height each lowered by one when odd, whatever
  the other pages are. Whenever the repeat count k is defined, the frames written are,
  page after page, k copies of the page resized to exactly this size and converted; so
  every frame has this size. Width and height are even.
\<close>

theorem output_size_even:
  assumes "writer_opens w (output_path self) (fps self) (target_size (first_img # rest))"
  shows "\<exists>v. files (snd (images_to_video self (first_img # rest) w)) (output_path self)
               = Some (VideoFile v)
           \<and> v_size v = (make_even (fst (img_size first_img)), make_even (snd (img_size first_img)))
           \<and> (\<forall>k. frames_per_page self = Inr k \<longrightarrow>
                 v_frames v =
                   concat (map (\<lambda>img. replicate (nat k) (to_bgr (Resized img (v_size v))))
                     (first_img # rest)))
           \<and> (\<forall>f \<in> set (v_frames v). frame_size f = v_size v)
           \<and> even (fst (v_size v)) \<and> even (snd (v_size v))"
proof -
  let ?imgs = "first_img # rest"
  let ?sz = "(make_even (fst (img_size first_img)), make_even (snd (img_size first_img)))"
  have ne: "?imgs \<noteq> []" by simp
  have sz: "target_size ?imgs = ?sz" by (rule target_size_first)
  have e: "even (fst ?sz)" "even (snd ?sz)" by (simp_all add: make_even_even)
  show ?thesis
  proof (cases "frames_per_page self")
    case (Inl err)
    let ?v = "\<lparr>v_fps = fps self, v_size = target_size ?imgs, v_frames = [], v_released = False\<rparr>"
    have "files (snd (images_to_video self ?imgs w)) (output_path self) = Some (VideoFile ?v)"
      by (simp add: images_to_video_raises [OF ne assms Inl])
    moreover have "v_size ?v = ?sz" by (simp add: sz)
    moreover have "\<forall>k. frames_per_page self = Inr k \<longrightarrow>
        v_frames ?v = concat (map (\<lambda>img. replicate (nat k) (to_bgr (Resized img (v_size ?v)))) ?imgs)"
      using Inl by simp
    moreover have "\<forall>f \<in> set (v_frames ?v). frame_size f = v_size ?v" by simp
    moreover have "even (fst (v_size ?v))" "even (snd (v_size ?v))" using e by (simp_all add: sz)
    ultimately show ?thesis by blast
  next
    case (Inr k)
    let ?v = "final_video self ?imgs k"
    have "files (snd (images_to_video self ?imgs w)) (output_path self) = Some (VideoFile ?v)"
      by (simp add: images_to_video_ok [OF ne assms Inr])
    moreover have s: "v_size ?v = ?sz" by (simp add: final_video_def sz)
    moreover have "\<forall>k'. frames_per_page self = Inr k' \<longrightarrow>
        v_frames ?v = concat (map (\<lambda>img. replicate (nat k') (to_bgr (Resized img (v_size ?v)))) ?imgs)"
      using Inr by (simp add: final_video_def sz blocks_unfold page_frames_def)
    moreover have "\<forall>f \<in> set (v_frames ?v). frame_size f = v_size ?v"
      using frame_size_blocks [of _ "target_size ?imgs" k ?imgs]
      by (simp add: final_video_def)
    moreover have "even (fst (v_size ?v))" "even (snd (v_size ?v))" using e by (simp_all add: s)
    ultimately show ?thesis by blast
  qed
qed

lemma frames_eighth: "frames_per_page (sample_converter slides_pdf (1 / 8)) = Inr 3"
  by code_simp

theorem output_size_even_witness:
  "writer_opens sample_world slides_mp4 30 (target_size [page_one, page_two])
   \<and> frames_per_page (sample_converter slides_pdf (1 / 8)) = Inr 3
   \<and> (\<exists>v. files (snd (images_to_video (sample_converter slides_pdf (1 / 8)) [page_one, page_two]
                sample_world)) slides_mp4 = Some (VideoFile v)
          \<and> v_size v = (1240, 1754)
          \<and> v_frames v =
              [RGB2BGR (Resized page_one (1240, 1754)), RGB2BGR (Resized page_one (1240, 1754)),
               RGB2BGR (Resized page_one (1240, 1754)), GRAY2BGR (Resized page_two (1240, 1754)),
               GRAY2BGR (Resized page_two (1240, 1754)), GRAY2BGR (Resized page_two (1240, 1754))]
          \<and> (\<forall>f \<in> set (v_frames v). frame_size f = v_size v)
          \<and> even (fst (v_size v)) \<and> even (snd (v_size v)))"
proof -
  let ?c = "sample_converter slides_pdf (1 / 8)"
  have h: "writer_opens sample_world (output_path ?c) (fps ?c) (target_size [page_one, page_two])"
    by (simp add: sample_world_def)
  have o: "output_path ?c = slides_mp4" by (simp add: sample_converter_def)
  have m: "make_even (fst (img_size page_one)) = 1240" "make_even (snd (img_size page_one)) = 1754"
    by (simp_all add: page_one_def make_even_def)
  have b: "to_bgr (Resized page_one (1240, 1754)) = RGB2BGR (Resized page_one (1240, 1754))"
          "to_bgr (Resized page_two (1240, 1754)) = GRAY2BGR (Resized page_two (1240, 1754))"
    by (simp_all add: to_bgr_def page_one_def page_two_def)
  have w: "writer_opens sample_world slides_mp4 30 (target_size [page_one, page_two])"
    by (simp add: sample_world_def)
  from output_size_even [OF h]
  obtain v where v: "files (snd (images_to_video ?c [page_one, page_two] sample_world))
                       (output_path ?c) = Some (VideoFile v)"
    and s: "v_size v = (make_even (fst (img_size page_one)), make_even (snd (img_size page_one)))"
    and f: "\<forall>k. frames_per_page ?c = Inr k \<longrightarrow>
              v_frames v = concat (map (\<lambda>img. replicate (nat k) (to_bgr (Resized img (v_size v))))
                [page_one, page_two])"
    and a: "\<forall>f \<in> set (v_frames v). frame_size f = v_size v"
    and e: "even (fst (v_size v))" "even (snd (v_size v))"
    by blast
  have s': "v_size v = (1240, 1754)" using s by (simp add: m)
  have "v_frames v =
          [RGB2BGR (Resized page_one (1240, 1754)), RGB2BGR (Resized page_one (1240, 1754)),
           RGB2BGR (Resized page_one (1240, 1754)), GRAY2BGR (Resized page_two (1240, 1754)),
           GRAY2BGR (Resized page_two (1240, 1754)), GRAY2BGR (Resized page_two (1240, 1754))]"
    using f frames_eighth by (simp add: s' b numeral_3_eq_3)
  with v s' a e w frames_eighth show ?thesis unfolding o by blast
qed

subsection \<open>Printed failures\<close>

lemma failures_append: "failures (xs @ ys) = failures xs @ failures ys"
  by (induction xs rule: failures.induct) simp_all

lemma failures_pdf_to_images:
  "failures (stdout (snd (pdf_to_images self dpi w))) = failures (stdout w)"
  by (simp add: pdf_to_images_def Let_def print_def failures_append
      split: sum.splits)

lemma failures_images_to_video:
  "failures (stdout (snd (images_to_video self images w))) = failures (stdout w)"
  by (simp add: images_to_video_def Let_def print_def failures_append vw_open_def
      vw_release_def write_pages_append append_frames_def
      split: option.splits file_content.splits sum.splits)

lemma convert_raster_error:
  assumes "fst (pdf_to_images self dpi w) = Inl e"
  shows "fst (convert self dpi w) = SysExit 1
       \<and> failures (stdout (snd (convert self dpi w))) = failures (stdout w) @ [e]
       \<and> last (stdout (snd (convert self dpi w))) = MsgConvertFailed e"
proof -
  obtain w1 where p: "pdf_to_images self dpi w = (Inl e, w1)"
    using assms by (cases "pdf_to_images self dpi w") auto
  have "failures (stdout w1) = failures (stdout w)"
    using failures_pdf_to_images [of self dpi w] by (simp add: p)
  then show ?thesis
    using p by (simp add: convert_def pdf_to_images_default print_def failures_append)
qed

lemma convert_video_error:
  assumes "pdf_to_images self dpi w = (Inr images, w1)"
    and "fst (images_to_video self images w1) = Inl e"
  shows "fst (convert self dpi w) = SysExit 1
       \<and> failures (stdout (snd (convert self dpi w))) = failures (stdout w) @ [e]
       \<and> last (stdout (snd (convert self dpi w))) = MsgConvertFailed e"
proof -
  obtain w2 where v: "images_to_video self images w1 = (Inl e, w2)"
    using assms(2) by (cases "images_to_video self images w1") auto
  have "failures (stdout w1) = failures (stdout w)"
    using failures_pdf_to_images [of self dpi w] by (simp add: assms(1))
  moreover have "failures (stdout w2) = failures (stdout w1)"
    using failures_images_to_video [of self images w1] by (simp add: v)
  ultimately show ?thesis
    using assms(1) v by (simp add: convert_def pdf_to_images_default print_def failures_append)
qed

lemma convert_never_raises: "fst (convert self dpi w) \<noteq> Uncaught x"
  by (simp add: convert_def Let_def split: prod.splits sum.splits)

lemma main_missing:
  assumes "files w (Path_of (cli_pdf_file c)) = None"
  shows "main c w = (Uncaught (FileNotFoundError (Path_of (cli_pdf_file c))), w)"
  using init_missing [OF assms] by (simp add: main_def Let_def parse_args_def)

text \<open>
  Claim C3, as amended. Every error raised inside \<open>convert\<close>, by the rasterizer or by
  the frame composer and video writer, is caught once: \<open>convert\<close> ends with
  \<open>sys.exit(1)\<close>, and exactly one failure message, carrying that error, is added to
  the output as its last line. No error leaves \<open>convert\<close>. The check of the input
  path is made by the constructor, which \<open>main\<close> calls outside of \<open>convert\<close>:
  when the input is missing, \<open>FileNotFoundError\<close> leaves \<open>main\<close> and the
  program has printed nothing.
\<close>

theorem errors_caught_in_convert:
  "(fst (pdf_to_images self dpi w) = Inl e \<longrightarrow>
      fst (convert self dpi w) = SysExit 1
      \<and> exit_status (fst (convert self dpi w)) = 1
      \<and> failures (stdout (snd (convert self dpi w))) = failures (stdout w) @ [e]
      \<and> last (stdout (snd (convert self dpi w))) = MsgConvertFailed e)
   \<and> (pdf_to_images self dpi w = (Inr images, w1) \<and> fst (images_to_video self images w1) = Inl e \<longrightarrow>
      fst (convert self dpi w) = SysExit 1
      \<and> exit_status (fst (convert self dpi w)) = 1
      \<and> failures (stdout (snd (convert self dpi w))) = failures (stdout w) @ [e]
      \<and> last (stdout (snd (convert self dpi w))) = MsgConvertFailed e)
   \<and> fst (convert self dpi w) \<noteq> Uncaught x
   \<and> (files w (Path_of (cli_pdf_file c)) = None \<longrightarrow>
        main c w = (Uncaught (FileNotFoundError (Path_of (cli_pdf_file c))), w))"
  using convert_raster_error [of self dpi w e] convert_video_error [of self dpi w images w1 e]
    convert_never_raises [of self dpi w x] main_missing [of w c]
  by simp

subsection \<open>The sample inputs evaluated\<close>

lemma path_of_missing: "Path_of ''missing.pdf'' = \<lparr>anchored = False, parts = [''missing.pdf'']\<rparr>"
  by (simp add: Path_of_def)

lemma path_of_slides: "Path_of ''slides.pdf'' = slides_pdf"
  by (simp add: Path_of_def slides_pdf_def)

lemma path_of_empty: "Path_of ''empty.pdf'' = empty_pdf"
  by (simp add: Path_of_def empty_pdf_def)

lemma sample_files_missing: "files sample_world (Path_of ''missing.pdf'') = None"
  by (simp add: path_of_missing sample_world_def sample_files_def slides_pdf_def
      broken_pdf_def empty_pdf_def)

lemma sample_files_broken: "files sample_world broken_pdf = Some (PdfFile broken_pages)"
  by (simp add: sample_world_def sample_files_def slides_pdf_def broken_pdf_def)

lemma sample_files_empty: "files sample_world empty_pdf = Some (PdfFile [])"
  by (simp add: sample_world_def sample_files_def slides_pdf_def broken_pdf_def empty_pdf_def)

lemma broken_render:
  "render_loop broken_pages (case dpi of None \<Rightarrow> default_dpi | Some x \<Rightarrow> x) []
     = Inl (LibraryError ''get_pixmap'')"
  by (simp add: broken_pages_def)

lemma broken_pdf_to_images:
  "pdf_to_images (sample_converter broken_pdf d) None sample_world =
     (Inl (LibraryError ''get_pixmap''),
      sample_world\<lparr>open_docs := [broken_pdf],
        stdout := [MsgReadingPdf broken_pdf, MsgPageCount 2]\<rparr>)"
proof -
  have p: "pdf_path (sample_converter broken_pdf d) = broken_pdf"
    by (simp add: sample_converter_def)
  have f: "files sample_world (pdf_path (sample_converter broken_pdf d)) = Some (PdfFile broken_pages)"
    by (simp add: p sample_files_broken)
  have s: "open_docs sample_world = []" "stdout sample_world = []"
    by (simp_all add: sample_world_def)
  show ?thesis
    using pdf_to_images_raised [OF f broken_render [of None]]
    by (simp add: p s broken_pages_def)
qed

lemma slides_pdf_to_images_closed:
  "pdf_to_images (sample_converter slides_pdf d) None closed_world =
     (Inr [page_one, page_two],
      closed_world\<lparr>stdout := [MsgReadingPdf slides_pdf, MsgPageCount 2]\<rparr>)"
proof -
  have p: "pdf_path (sample_converter slides_pdf d) = slides_pdf"
    by (simp add: sample_converter_def)
  have f: "files closed_world (pdf_path (sample_converter slides_pdf d)) = Some (PdfFile slides_pages)"
    using sample_files_slides by (simp add: p closed_world_def)
  have r: "render_loop slides_pages (case None of None \<Rightarrow> default_dpi | Some x \<Rightarrow> x) []
             = Inr [page_one, page_two]"
    using render_loop_all [OF slides_rendered, of default_dpi "[]"] by simp
  have s: "stdout closed_world = []" by (simp add: closed_world_def sample_world_def)
  show ?thesis
    using pdf_to_images_rendered [OF f r] by (simp add: p s slides_pages_def)
qed

theorem errors_caught_in_convert_witness:
  "fst (pdf_to_images (sample_converter broken_pdf 1) None sample_world)
     = Inl (LibraryError ''get_pixmap'')
   \<and> fst (convert (sample_converter broken_pdf 1) None sample_world) = SysExit 1
   \<and> failures (stdout (snd (convert (sample_converter broken_pdf 1) None sample_world)))
       = [LibraryError ''get_pixmap'']
   \<and> files sample_world (Path_of (cli_pdf_file (sample_cli ''missing.pdf'' None))) = None
   \<and> fst (main (sample_cli ''missing.pdf'' None) sample_world)
       = Uncaught (FileNotFoundError (Path_of ''missing.pdf''))
   \<and> pdf_to_images (sample_converter slides_pdf 1) None closed_world
       = (Inr [page_one, page_two],
          closed_world\<lparr>stdout := [MsgReadingPdf slides_pdf, MsgPageCount 2]\<rparr>)
   \<and> fst (images_to_video (sample_converter slides_pdf 1) [page_one, page_two]
            (closed_world\<lparr>stdout := [MsgReadingPdf slides_pdf, MsgPageCount 2]\<rparr>))
       = Inl RuntimeError
   \<and> fst (convert (sample_converter slides_pdf 1) None closed_world) = SysExit 1
   \<and> failures (stdout (snd (convert (sample_converter slides_pdf 1) None closed_world)))
       = [RuntimeError]"
proof -
  let ?b = "sample_converter broken_pdf 1"
  let ?s = "sample_converter slides_pdf 1"
  let ?w1 = "closed_world\<lparr>stdout := [MsgReadingPdf slides_pdf, MsgPageCount 2]\<rparr>"
  have a1: "fst (pdf_to_images ?b None sample_world) = Inl (LibraryError ''get_pixmap'')"
    by (simp add: broken_pdf_to_images)
  have a4: "files sample_world (Path_of (cli_pdf_file (sample_cli ''missing.pdf'' None))) = None"
    by (simp add: sample_cli_def sample_files_missing)
  have b1: "pdf_to_images ?s None closed_world = (Inr [page_one, page_two], ?w1)"
    by (rule slides_pdf_to_images_closed)
  have b2: "fst (images_to_video ?s [page_one, page_two] ?w1) = Inl RuntimeError"
    by (simp add: images_to_video_def Let_def print_def closed_world_def)
  have e: "failures (stdout sample_world) = []" "failures (stdout closed_world) = []"
    by (simp_all add: sample_world_def closed_world_def)
  have n: "cli_pdf_file (sample_cli ''missing.pdf'' None) = ''missing.pdf''"
    by (simp add: sample_cli_def)
  from errors_caught_in_convert
         [of ?b None sample_world "LibraryError ''get_pixmap''" "[]" sample_world
             "ValueError" "sample_cli ''missing.pdf'' None"]
       a1 a4
  have A: "fst (convert ?b None sample_world) = SysExit 1
         \<and> failures (stdout (snd (convert ?b None sample_world))) = [LibraryError ''get_pixmap'']
         \<and> fst (main (sample_cli ''missing.pdf'' None) sample_world)
             = Uncaught (FileNotFoundError (Path_of ''missing.pdf''))"
    by (simp add: e n)
  from errors_caught_in_convert
         [of ?s None closed_world RuntimeError "[page_one, page_two]" ?w1
             "ValueError" "sample_cli ''missing.pdf'' None"]
       b1 b2
  have B: "fst (convert ?s None closed_world) = SysExit 1
         \<and> failures (stdout (snd (convert ?s None closed_world))) = [RuntimeError]"
    by (simp add: e)
  from a1 a4 b1 b2 A B show ?thesis by blast
qed

text \<open>
  The claim as it was stated fails for a missing input: the error of the path check is not
  turned into \<open>sys.exit(1)\<close> and no message is printed by the program.
\<close>

theorem missing_input_not_caught:
  "fst (main (sample_cli ''missing.pdf'' None) sample_world)
     = Uncaught (FileNotFoundError \<lparr>anchored = False, parts = [''missing.pdf'']\<rparr>)
   \<and> fst (main (sample_cli ''missing.pdf'' None) sample_world) \<noteq> SysExit 1
   \<and> stdout (snd (main (sample_cli ''missing.pdf'' None) sample_world)) = []"
proof -
  have "files sample_world (Path_of (cli_pdf_file (sample_cli ''missing.pdf'' None))) = None"
    by (simp add: sample_cli_def sample_files_missing)
  from main_missing [OF this] show ?thesis
    by (simp add: sample_cli_def path_of_missing sample_world_def)
qed


subsection \<open>Release of the document\<close>

text \<open>
  Claim C4, as amended. When every page renders, the document that the rasterization step
  opened is closed when the step returns: the open documents are those from before.
\<close>

theorem document_closed_after_rendering:
  assumes "fst (pdf_to_images self dpi w) = Inr images"
  shows "open_docs (snd (pdf_to_images self dpi w)) = open_docs w"
  using assms
  by (auto simp: pdf_to_images_def Let_def print_def split: sum.splits)

theorem document_closed_after_rendering_witness:
  "fst (pdf_to_images (sample_converter slides_pdf 1) None closed_world) = Inr [page_one, page_two]
   \<and> open_docs (snd (pdf_to_images (sample_converter slides_pdf 1) None closed_world)) = []"
proof -
  have h: "fst (pdf_to_images (sample_converter slides_pdf 1) None closed_world)
             = Inr [page_one, page_two]"
    by (simp add: slides_pdf_to_images_closed)
  have "open_docs closed_world = []" by (simp add: closed_world_def sample_world_def)
  with document_closed_after_rendering [OF h] h show ?thesis by simp
qed

text \<open>
  On the path where rendering raises, here at the second page, the step returns with the
  document still open: \<open>doc.close()\<close> is not reached.
\<close>

theorem document_left_open_on_error:
  "fst (pdf_to_images (sample_converter broken_pdf 1) None sample_world)
     = Inl (LibraryError ''get_pixmap'')
   \<and> open_docs sample_world = []
   \<and> open_docs (snd (pdf_to_images (sample_converter broken_pdf 1) None sample_world))
       = [broken_pdf]"
  by (simp add: broken_pdf_to_images) (simp add: sample_world_def)

subsection \<open>Missing and empty inputs\<close>

text \<open>
  Claim C5. When the input path does not exist, the run fails with
  \<open>FileNotFoundError\<close>, the exit status is 1, and the world is left as it was: no
  file is created, at the output path or elsewhere.
\<close>

theorem missing_input_fails:
  assumes "files w (Path_of (cli_pdf_file c)) = None"
  shows "fst (main c w) = Uncaught (FileNotFoundError (Path_of (cli_pdf_file c)))
       \<and> exit_status (fst (main c w)) = 1
       \<and> files (snd (main c w)) = files w
       \<and> snd (main c w) = w"
  using init_missing [OF assms] by (simp add: main_def Let_def parse_args_def)

theorem missing_input_fails_witness:
  "files sample_world (Path_of (cli_pdf_file (sample_cli ''missing.pdf'' None))) = None
   \<and> fst (main (sample_cli ''missing.pdf'' None) sample_world)
       = Uncaught (FileNotFoundError (Path_of ''missing.pdf''))
   \<and> exit_status (fst (main (sample_cli ''missing.pdf'' None) sample_world)) = 1
   \<and> files (snd (main (sample_cli ''missing.pdf'' None) sample_world)) slides_mp4 = None"
proof -
  have h: "files sample_world (Path_of (cli_pdf_file (sample_cli ''missing.pdf'' None))) = None"
    by (simp add: sample_cli_def sample_files_missing)
  have n: "cli_pdf_file (sample_cli ''missing.pdf'' None) = ''missing.pdf''"
    by (simp add: sample_cli_def)
  have o: "files sample_world slides_mp4 = None"
    by (simp add: sample_world_def sample_files_def slides_mp4_def slides_pdf_def
        broken_pdf_def empty_pdf_def)
  from missing_input_fails [OF h] h show ?thesis by (simp add: n o)
qed

text \<open>
  Claim C6. For a PDF without pages the frame composer raises \<open>ValueError\<close> (no
  images to convert) before a writer is opened: the files are left as they were, the
  failure is printed, and the run ends with exit status 1.
\<close>

theorem empty_pdf_fails:
  assumes "files w (Path_of (cli_pdf_file c)) = Some (PdfFile [])"
  shows "fst (main c w) = SysExit 1
       \<and> exit_status (fst (main c w)) = 1
       \<and> files (snd (main c w)) = files w
       \<and> stdout (snd (main c w))
           = stdout w @ [MsgReadingPdf (Path_of (cli_pdf_file c)), MsgPageCount 0,
                         MsgConvertFailed ValueError]
       \<and> images_to_video self [] w' = (Inl ValueError, w')"
proof -
  have "files w (Path_of (cli_pdf_file c)) \<noteq> None" using assms by simp
  from init_present [OF this]
  obtain conv where i: "init (cli_pdf_file c) (cli_output c) (Some (PyFloat (args_duration (parse_args c))))
                          (Some (args_fps (parse_args c))) w = Inr conv"
    and p: "pdf_path conv = Path_of (cli_pdf_file c)" by blast
  have f: "files w (pdf_path conv) = Some (PdfFile [])" using assms p by simp
  have r: "render_loop [] (case Some (args_dpi (parse_args c)) of None \<Rightarrow> default_dpi | Some x \<Rightarrow> x) []
             = Inr []" by simp
  have m: "main c w = convert conv (Some (args_dpi (parse_args c))) w"
    by (rule main_init [OF i])
  have "convert conv (Some (args_dpi (parse_args c))) w =
          (SysExit 1,
           w\<lparr>stdout := stdout w @ [MsgReadingPdf (pdf_path conv), MsgPageCount 0,
                                   MsgConvertFailed ValueError]\<rparr>)"
    using pdf_to_images_rendered [OF f r]
    by (simp add: convert_def images_to_video_empty print_def)
  then show ?thesis by (simp add: m p images_to_video_empty)
qed

theorem empty_pdf_fails_witness:
  "files sample_world (Path_of (cli_pdf_file (sample_cli ''empty.pdf'' None))) = Some (PdfFile [])
   \<and> fst (main (sample_cli ''empty.pdf'' None) sample_world) = SysExit 1
   \<and> exit_status (fst (main (sample_cli ''empty.pdf'' None) sample_world)) = 1
   \<and> files (snd (main (sample_cli ''empty.pdf'' None) sample_world)) slides_mp4 = None
   \<and> stdout (snd (main (sample_cli ''empty.pdf'' None) sample_world))
       = [MsgReadingPdf empty_pdf, MsgPageCount 0, MsgConvertFailed ValueError]"
proof -
  have n: "cli_pdf_file (sample_cli ''empty.pdf'' None) = ''empty.pdf''"
    by (simp add: sample_cli_def)
  have h: "files sample_world (Path_of (cli_pdf_file (sample_cli ''empty.pdf'' None)))
             = Some (PdfFile [])"
    by (simp add: n path_of_empty sample_files_empty)
  have o: "files sample_world slides_mp4 = None"
    by (simp add: sample_world_def sample_files_def slides_mp4_def slides_pdf_def
        broken_pdf_def empty_pdf_def)
  have s: "stdout sample_world = []" by (simp add: sample_world_def)
  from empty_pdf_fails [OF h] h show ?thesis by (simp add: n o s path_of_empty)
qed


subsection \<open>No validation of the parameters\<close>

lemma init_fields:
  assumes "init pdf out (Some d) (Some r) w = Inr self"
  shows "pdf_path self = Path_of pdf \<and> duration_per_page self = d \<and> fps self = r"
  using assms by (auto simp: init_def Let_def split: if_splits)

lemma convert_starts:
  "\<exists>ms. stdout (snd (convert self dpi w)) = stdout w @ MsgReadingPdf (pdf_path self) # ms"
  by (auto simp: convert_def pdf_to_images_def images_to_video_def Let_def print_def
      vw_open_def vw_release_def write_pages_append append_frames_def
      split: sum.splits option.splits file_content.splits)

text \<open>
  Claim C7, as amended. The program neither establishes nor enforces the invariant. For
  every value of the duration, fps and DPI, positive or not, \<open>main\<close> passes the parsed
  duration and fps unchanged to the converter and, when the input path exists, the
  conversion proceeds with the parsed DPI: the rasterizer is entered and prints its
  first line. Whenever moreover every page renders, there is at least one page, the
  writer opens and \<open>int(fps * duration)\<close> does not raise, the run completes with exit
  status 0 and leaves a video at the output path.
\<close>

theorem parameters_not_validated:
  assumes "files w (Path_of (cli_pdf_file c)) \<noteq> None"
  shows "\<exists>self.
           init (cli_pdf_file c) (cli_output c) (Some (PyFloat (args_duration (parse_args c))))
             (Some (args_fps (parse_args c))) w = Inr self
         \<and> duration_per_page self = PyFloat (args_duration (parse_args c))
         \<and> fps self = args_fps (parse_args c)
         \<and> main c w = convert self (Some (args_dpi (parse_args c))) w
         \<and> (\<exists>ms. stdout (snd (main c w)) = stdout w @ MsgReadingPdf (pdf_path self) # ms)
         \<and> (\<forall>pages imgs k.
               files w (pdf_path self) = Some (PdfFile pages)
               \<and> map (\<lambda>p. render_page p (args_dpi (parse_args c))) pages = map Inr imgs
               \<and> imgs \<noteq> []
               \<and> writer_opens w (output_path self) (fps self) (target_size imgs)
               \<and> frames_per_page self = Inr k
               \<longrightarrow> fst (main c w) = Returned
                 \<and> exit_status (fst (main c w)) = 0
                 \<and> files (snd (main c w)) (output_path self)
                     = Some (VideoFile (final_video self imgs k)))"
proof -
  from init_present [OF assms]
  obtain self where i: "init (cli_pdf_file c) (cli_output c)
                          (Some (PyFloat (args_duration (parse_args c))))
                          (Some (args_fps (parse_args c))) w = Inr self"
    by blast
  have m: "main c w = convert self (Some (args_dpi (parse_args c))) w"
    by (rule main_init [OF i])
  have s: "\<exists>ms. stdout (snd (main c w)) = stdout w @ MsgReadingPdf (pdf_path self) # ms"
    unfolding m by (rule convert_starts)
  have r: "\<forall>pages imgs k.
               files w (pdf_path self) = Some (PdfFile pages)
               \<and> map (\<lambda>p. render_page p (args_dpi (parse_args c))) pages = map Inr imgs
               \<and> imgs \<noteq> []
               \<and> writer_opens w (output_path self) (fps self) (target_size imgs)
               \<and> frames_per_page self = Inr k
               \<longrightarrow> fst (main c w) = Returned
                 \<and> exit_status (fst (main c w)) = 0
                 \<and> files (snd (main c w)) (output_path self)
                     = Some (VideoFile (final_video self imgs k))"
  proof (intro allI impI)
    fix pages imgs k
    assume h: "files w (pdf_path self) = Some (PdfFile pages)
               \<and> map (\<lambda>p. render_page p (args_dpi (parse_args c))) pages = map Inr imgs
               \<and> imgs \<noteq> []
               \<and> writer_opens w (output_path self) (fps self) (target_size imgs)
               \<and> frames_per_page self = Inr k"
    then have h1: "files w (pdf_path self) = Some (PdfFile pages)"
      and h2: "map (\<lambda>p. render_page p (args_dpi (parse_args c))) pages = map Inr imgs"
      and h3: "imgs \<noteq> []"
      and h4: "writer_opens w (output_path self) (fps self) (target_size imgs)"
      and h5: "frames_per_page self = Inr k" by simp_all
    show "fst (main c w) = Returned
        \<and> exit_status (fst (main c w)) = 0
        \<and> files (snd (main c w)) (output_path self)
            = Some (VideoFile (final_video self imgs k))"
      unfolding m by (simp add: convert_all_rendered [OF h1 h2 h3 h4 h5])
  qed
  from i init_fields [OF i] m s r show ?thesis by blast
qed

lemma sample_cwd: "cwd sample_world = \<lparr>anchored = True, parts = [''home'', ''user'']\<rparr>"
  by (simp add: sample_world_def)

lemma stem_slides: "stem slides_pdf = ''slides''"
  by (simp add: stem_def slides_pdf_def path_name_def Let_def)

lemma default_output_slides: "joinpath (cwd sample_world) (stem slides_pdf @ ''.mp4'') = slides_mp4"
  by (simp add: stem_slides sample_cwd joinpath_def Path_of_def slides_mp4_def Let_def)

lemma init_slides:
  "init ''slides.pdf'' None (Some d) (Some r) sample_world
     = Inr \<lparr>pdf_path = slides_pdf, output_path = slides_mp4, duration_per_page = d, fps = r\<rparr>"
  by (simp add: init_def Let_def path_of_slides sample_files_slides default_output_slides)

lemma parse_sample_cli:
  "parse_args (sample_cli name d)
     = \<lparr>args_pdf_file = name, args_output = None,
        args_duration = (case d of None \<Rightarrow> Finite (1 / 2) | Some x \<Rightarrow> Finite x),
        args_fps = 30, args_dpi = 300\<rparr>"
  by (cases d) (simp_all add: parse_args_def sample_cli_def)

lemma parse_sample_cli_with:
  "parse_args (sample_cli_with name d r q)
     = \<lparr>args_pdf_file = name, args_output = None, args_duration = Finite d,
        args_fps = r, args_dpi = q\<rparr>"
  by (simp add: parse_args_def sample_cli_with_def)

lemma init_sample_cli:
  "init (cli_pdf_file (sample_cli ''slides.pdf'' (Some d))) (cli_output (sample_cli ''slides.pdf'' (Some d)))
        (Some (PyFloat (args_duration (parse_args (sample_cli ''slides.pdf'' (Some d))))))
        (Some (args_fps (parse_args (sample_cli ''slides.pdf'' (Some d))))) sample_world
     = Inr (sample_converter slides_pdf d)"
  by (simp add: parse_sample_cli sample_converter_def) (simp add: sample_cli_def init_slides)

lemma init_sample_cli_default:
  "init (cli_pdf_file (sample_cli ''slides.pdf'' None)) (cli_output (sample_cli ''slides.pdf'' None))
        (Some (PyFloat (args_duration (parse_args (sample_cli ''slides.pdf'' None)))))
        (Some (args_fps (parse_args (sample_cli ''slides.pdf'' None)))) sample_world
     = Inr (sample_converter slides_pdf (1 / 2))"
  by (simp add: parse_sample_cli sample_converter_def) (simp add: sample_cli_def init_slides)

lemma frames_half: "frames_per_page (sample_converter slides_pdf (1 / 2)) = Inr 15"
  by code_simp

lemma frames_minus_two: "frames_per_page (sample_converter slides_pdf (- 2)) = Inr (- 60)"
  by code_simp

lemma frames_zero: "frames_per_page (sample_converter slides_pdf 0) = Inr 0"
  by code_simp

lemma sample_files_slides_cli:
  "files sample_world (Path_of (cli_pdf_file (sample_cli ''slides.pdf'' d))) \<noteq> None"
  "files sample_world (Path_of (cli_pdf_file (sample_cli_with ''slides.pdf'' x r q))) \<noteq> None"
  by (simp_all add: sample_cli_def sample_cli_with_def path_of_slides sample_files_slides)

theorem parameters_not_validated_witness:
  "files sample_world (Path_of (cli_pdf_file (sample_cli ''slides.pdf'' (Some (- 2))))) \<noteq> None
   \<and> files sample_world (pdf_path (sample_converter slides_pdf (- 2))) = Some (PdfFile slides_pages)
   \<and> map (\<lambda>p. render_page p (args_dpi (parse_args (sample_cli ''slides.pdf'' (Some (- 2))))))
        slides_pages = map Inr [page_one, page_two]
   \<and> frames_per_page (sample_converter slides_pdf (- 2)) = Inr (- 60)
   \<and> \<not> num_pos (PyFloat (args_duration (parse_args (sample_cli ''slides.pdf'' (Some (- 2))))))
   \<and> fst (main (sample_cli ''slides.pdf'' (Some (- 2))) sample_world) = Returned
   \<and> exit_status (fst (main (sample_cli ''slides.pdf'' (Some (- 2))) sample_world)) = 0
   \<and> files sample_world (Path_of (cli_pdf_file (sample_cli_with ''slides.pdf'' 0 0 0))) \<noteq> None
   \<and> args_fps (parse_args (sample_cli_with ''slides.pdf'' 0 0 0)) = 0
   \<and> args_dpi (parse_args (sample_cli_with ''slides.pdf'' 0 0 0)) = 0
   \<and> (\<exists>ms. stdout (snd (main (sample_cli_with ''slides.pdf'' 0 0 0) sample_world))
              = MsgReadingPdf slides_pdf # ms)"
proof -
  let ?c = "sample_cli ''slides.pdf'' (Some (- 2))"
  let ?s = "sample_converter slides_pdf (- 2)"
  let ?z = "sample_cli_with ''slides.pdf'' 0 0 0"
  have a: "files sample_world (Path_of (cli_pdf_file ?c)) \<noteq> None"
    by (rule sample_files_slides_cli)
  have i: "init (cli_pdf_file ?c) (cli_output ?c) (Some (PyFloat (args_duration (parse_args ?c))))
              (Some (args_fps (parse_args ?c))) sample_world = Inr ?s"
    by (rule init_sample_cli)
  have h2: "files sample_world (pdf_path ?s) = Some (PdfFile slides_pages)"
    by (simp add: sample_converter_def sample_files_slides)
  have h3: "map (\<lambda>p. render_page p (args_dpi (parse_args ?c))) slides_pages
              = map Inr [page_one, page_two]"
    by (rule slides_rendered)
  have h4: "[page_one, page_two] \<noteq> []" by simp
  have h5: "writer_opens sample_world (output_path ?s) (fps ?s) (target_size [page_one, page_two])"
    by (simp add: sample_world_def)
  have n: "\<not> num_pos (PyFloat (args_duration (parse_args ?c)))"
    by (simp add: parse_sample_cli)
  from parameters_not_validated [OF a]
  obtain conv where i': "init (cli_pdf_file ?c) (cli_output ?c)
        (Some (PyFloat (args_duration (parse_args ?c)))) (Some (args_fps (parse_args ?c)))
        sample_world = Inr conv"
    and r: "\<forall>pages imgs k.
               files sample_world (pdf_path conv) = Some (PdfFile pages)
               \<and> map (\<lambda>p. render_page p (args_dpi (parse_args ?c))) pages = map Inr imgs
               \<and> imgs \<noteq> []
               \<and> writer_opens sample_world (output_path conv) (fps conv) (target_size imgs)
               \<and> frames_per_page conv = Inr k
               \<longrightarrow> fst (main ?c sample_world) = Returned
                 \<and> exit_status (fst (main ?c sample_world)) = 0
                 \<and> files (snd (main ?c sample_world)) (output_path conv)
                     = Some (VideoFile (final_video conv imgs k))"
    by blast
  have cs: "conv = ?s" using i i' by simp
  have A: "fst (main ?c sample_world) = Returned \<and> exit_status (fst (main ?c sample_world)) = 0"
    using r [rule_format, of slides_pages "[page_one, page_two]" "- 60"]
      h2 h3 h4 h5 frames_minus_two
    unfolding cs by blast
  have b: "files sample_world (Path_of (cli_pdf_file ?z)) \<noteq> None"
    by (rule sample_files_slides_cli)
  have e: "stdout sample_world = []" by (simp add: sample_world_def)
  have pz: "Path_of (cli_pdf_file ?z) = slides_pdf"
    by (simp add: sample_cli_with_def path_of_slides)
  from parameters_not_validated [OF b]
  obtain self where "init (cli_pdf_file ?z) (cli_output ?z)
        (Some (PyFloat (args_duration (parse_args ?z)))) (Some (args_fps (parse_args ?z)))
        sample_world = Inr self"
    and "\<exists>ms. stdout (snd (main ?z sample_world))
               = stdout sample_world @ MsgReadingPdf (pdf_path self) # ms"
    by blast
  then have B: "\<exists>ms. stdout (snd (main ?z sample_world)) = MsgReadingPdf slides_pdf # ms"
    using init_fields [of "cli_pdf_file ?z"] by (simp add: e pz)
  have z: "args_fps (parse_args ?z) = 0" "args_dpi (parse_args ?z) = 0"
    by (simp_all add: parse_sample_cli_with)
  from a h2 h3 frames_minus_two n A b z B show ?thesis by blast
qed

lemma convert_prints_count:
  assumes "files w (pdf_path self) = Some (PdfFile pages)"
  shows "\<exists>ms. stdout (snd (convert self dpi w))
           = stdout w @ MsgReadingPdf (pdf_path self) # MsgPageCount (length pages) # ms"
  using assms
  by (auto simp: convert_def pdf_to_images_def images_to_video_def Let_def print_def
      fitz_open_def vw_open_def vw_release_def write_pages_append append_frames_def
      split: sum.splits option.splits file_content.splits)

lemma init_sample_cli_with:
  "init (cli_pdf_file (sample_cli_with ''slides.pdf'' d r q))
        (cli_output (sample_cli_with ''slides.pdf'' d r q))
        (Some (PyFloat (args_duration (parse_args (sample_cli_with ''slides.pdf'' d r q)))))
        (Some (args_fps (parse_args (sample_cli_with ''slides.pdf'' d r q)))) sample_world
     = Inr \<lparr>pdf_path = slides_pdf, output_path = slides_mp4,
            duration_per_page = PyFloat (Finite d), fps = r\<rparr>"
  by (simp add: parse_sample_cli_with) (simp add: sample_cli_with_def init_slides)

text \<open>
  The claim as it was stated fails: with \<open>-d 0\<close> the conversion is performed, and it
  completes. With \<open>--fps 0 --dpi 0\<close> the conversion is entered as well: the document
  is opened and its page count is printed before either value is looked at.
\<close>

theorem conversion_with_nonpositive_parameters:
  "args_duration (parse_args (sample_cli ''slides.pdf'' (Some 0))) = Finite 0
   \<and> \<not> num_pos (PyFloat (args_duration (parse_args (sample_cli ''slides.pdf'' (Some 0)))))
   \<and> fst (main (sample_cli ''slides.pdf'' (Some 0)) sample_world) = Returned
   \<and> files (snd (main (sample_cli ''slides.pdf'' (Some 0)) sample_world)) slides_mp4
       = Some (VideoFile \<lparr>v_fps = 30, v_size = (1240, 1754), v_frames = [], v_released = True\<rparr>)
   \<and> args_fps (parse_args (sample_cli_with ''slides.pdf'' (1 / 2) 0 0)) = 0
   \<and> args_dpi (parse_args (sample_cli_with ''slides.pdf'' (1 / 2) 0 0)) = 0
   \<and> stdout sample_world = []
   \<and> take 2 (stdout (snd (main (sample_cli_with ''slides.pdf'' (1 / 2) 0 0) sample_world)))
       = [MsgReadingPdf slides_pdf, MsgPageCount 2]"
proof -
  let ?c = "sample_cli ''slides.pdf'' (Some 0)"
  let ?s = "sample_converter slides_pdf 0"
  let ?z = "sample_cli_with ''slides.pdf'' (1 / 2) 0 0"
  let ?t = "\<lparr>pdf_path = slides_pdf, output_path = slides_mp4,
             duration_per_page = PyFloat (Finite (1 / 2)), fps = 0\<rparr>"
  have m: "main ?c sample_world = convert ?s (Some (args_dpi (parse_args ?c))) sample_world"
    by (rule main_init [OF init_sample_cli])
  have h2: "files sample_world (pdf_path ?s) = Some (PdfFile slides_pages)"
    by (simp add: sample_converter_def sample_files_slides)
  have h5: "writer_opens sample_world (output_path ?s) (fps ?s) (target_size [page_one, page_two])"
    by (simp add: sample_world_def)
  have o: "output_path ?s = slides_mp4" by (simp add: sample_converter_def)
  have v: "final_video ?s [page_one, page_two] 0
             = \<lparr>v_fps = 30, v_size = (1240, 1754), v_frames = [], v_released = True\<rparr>"
    by (simp add: final_video_def sample_target_size page_frames_def sample_converter_def)
  have A: "args_duration (parse_args ?c) = Finite 0
         \<and> \<not> num_pos (PyFloat (args_duration (parse_args ?c)))
         \<and> fst (main ?c sample_world) = Returned
         \<and> files (snd (main ?c sample_world)) slides_mp4
             = Some (VideoFile \<lparr>v_fps = 30, v_size = (1240, 1754), v_frames = [],
                  v_released = True\<rparr>)"
    using convert_all_rendered [OF h2 slides_rendered _ h5 frames_zero,
            of "args_dpi (parse_args ?c)"]
    by (simp add: m o v parse_sample_cli)
  have z: "args_fps (parse_args ?z) = 0" "args_dpi (parse_args ?z) = 0"
    by (simp_all add: parse_sample_cli_with)
  have e: "stdout sample_world = []" by (simp add: sample_world_def)
  have mz: "main ?z sample_world = convert ?t (Some (args_dpi (parse_args ?z))) sample_world"
    by (rule main_init [OF init_sample_cli_with])
  have f: "files sample_world (pdf_path ?t) = Some (PdfFile slides_pages)"
    by (simp add: sample_files_slides)
  have l: "length slides_pages = 2" by (simp add: slides_pages_def)
  from convert_prints_count [OF f, of "Some (args_dpi (parse_args ?z))"]
  have B: "take 2 (stdout (snd (main ?z sample_world)))
             = [MsgReadingPdf slides_pdf, MsgPageCount 2]"
    unfolding mz by (auto simp: e l)
  from A z e B show ?thesis by blast
qed

subsection \<open>Determinism\<close>

lemma convert_outcome:
  "fst (convert self (Some dpi) w) =
     (case files w (pdf_path self) of
        Some (PdfFile pages) \<Rightarrow>
          (case render_loop pages dpi [] of
             Inl e \<Rightarrow> SysExit 1
           | Inr imgs \<Rightarrow>
               if imgs \<noteq> [] \<and> writer_opens w (output_path self) (fps self) (target_size imgs)
               then (case frames_per_page self of Inl e \<Rightarrow> SysExit 1 | Inr k \<Rightarrow> Returned)
               else SysExit 1)
      | _ \<Rightarrow> SysExit 1)"
  by (auto simp: convert_def pdf_to_images_def images_to_video_def fitz_open_def Let_def
      print_def split: option.splits file_content.splits sum.splits)

lemma convert_returned_ex:
  assumes "fst (convert self (Some dpi) w) = Returned"
  shows "\<exists>pages imgs k. files w (pdf_path self) = Some (PdfFile pages)
           \<and> render_loop pages dpi [] = Inr imgs \<and> imgs \<noteq> []
           \<and> writer_opens w (output_path self) (fps self) (target_size imgs)
           \<and> frames_per_page self = Inr k"
  using assms unfolding convert_outcome
  by (auto split: option.splits file_content.splits sum.splits if_splits)

lemma convert_returned:
  assumes "fst (convert self (Some dpi) w) = Returned"
  obtains pages imgs k where "files w (pdf_path self) = Some (PdfFile pages)"
    and "render_loop pages dpi [] = Inr imgs" and "imgs \<noteq> []"
    and "writer_opens w (output_path self) (fps self) (target_size imgs)"
    and "frames_per_page self = Inr k"
  using convert_returned_ex [OF assms] by blast

lemma convert_agree:
  assumes "files w1 (pdf_path self) = files w2 (pdf_path self)"
    and "writer_opens w1 = writer_opens w2"
  shows "fst (convert self (Some dpi) w1) = fst (convert self (Some dpi) w2)"
    and "fst (convert self (Some dpi) w1) = Returned \<Longrightarrow>
         \<exists>v. files (snd (convert self (Some dpi) w1)) (output_path self) = Some (VideoFile v)
            \<and> files (snd (convert self (Some dpi) w2)) (output_path self) = Some (VideoFile v)"
proof -
  show "fst (convert self (Some dpi) w1) = fst (convert self (Some dpi) w2)"
    by (simp only: convert_outcome assms)
next
  assume "fst (convert self (Some dpi) w1) = Returned"
  then obtain pages imgs k where f: "files w1 (pdf_path self) = Some (PdfFile pages)"
    and r: "render_loop pages dpi [] = Inr imgs" and ne: "imgs \<noteq> []"
    and o: "writer_opens w1 (output_path self) (fps self) (target_size imgs)"
    and k: "frames_per_page self = Inr k"
    by (rule convert_returned)
  have f2: "files w2 (pdf_path self) = Some (PdfFile pages)" using f assms(1) by simp
  have o2: "writer_opens w2 (output_path self) (fps self) (target_size imgs)"
    using o assms(2) by simp
  have "files (snd (convert self (Some dpi) w1)) (output_path self)
          = Some (VideoFile (final_video self imgs k))"
    by (simp add: convert_ok [OF f r ne o k])
  moreover have "files (snd (convert self (Some dpi) w2)) (output_path self)
          = Some (VideoFile (final_video self imgs k))"
    by (simp add: convert_ok [OF f2 r ne o2 k])
  ultimately show "\<exists>v. files (snd (convert self (Some dpi) w1)) (output_path self) = Some (VideoFile v)
            \<and> files (snd (convert self (Some dpi) w2)) (output_path self) = Some (VideoFile v)"
    by blast
qed

lemma init_agree:
  assumes "files w1 (Path_of pdf) = files w2 (Path_of pdf)" and "cwd w1 = cwd w2"
  shows "init pdf out d r w1 = init pdf out d r w2"
  by (simp only: init_def Let_def assms)

text \<open>
  Claim C8. Two runs with the same command line, in two worlds that agree on the input
  file, the working directory and the availability of the writer, end the same way; when
  they complete, the videos at the output path are equal: same frame rate, same size, same
  frames in the same order. Nothing else of the world, such as an output file left by an
  earlier run, has an influence.
\<close>

theorem conversion_deterministic:
  assumes "files w1 (Path_of (cli_pdf_file c)) = files w2 (Path_of (cli_pdf_file c))"
    and "cwd w1 = cwd w2"
    and "writer_opens w1 = writer_opens w2"
  shows "fst (main c w1) = fst (main c w2)
       \<and> (fst (main c w1) = Returned \<longrightarrow>
            (\<exists>self v.
               init (cli_pdf_file c) (cli_output c) (Some (PyFloat (args_duration (parse_args c))))
                 (Some (args_fps (parse_args c))) w1 = Inr self
               \<and> files (snd (main c w1)) (output_path self) = Some (VideoFile v)
               \<and> files (snd (main c w2)) (output_path self) = Some (VideoFile v)))"
proof (cases "init (cli_pdf_file c) (cli_output c) (Some (PyFloat (args_duration (parse_args c))))
                (Some (args_fps (parse_args c))) w1")
  case (Inl e)
  then have "init (cli_pdf_file c) (cli_output c) (Some (PyFloat (args_duration (parse_args c))))
               (Some (args_fps (parse_args c))) w2 = Inl e"
    using init_agree [OF assms(1,2)] by simp
  with Inl show ?thesis by (simp add: main_def Let_def parse_args_def)
next
  case (Inr self)
  then have i2: "init (cli_pdf_file c) (cli_output c) (Some (PyFloat (args_duration (parse_args c))))
               (Some (args_fps (parse_args c))) w2 = Inr self"
    using init_agree [OF assms(1,2)] by simp
  have p: "pdf_path self = Path_of (cli_pdf_file c)"
    using init_fields [OF Inr] by simp
  have f: "files w1 (pdf_path self) = files w2 (pdf_path self)"
    using assms(1) p by simp
  have m1: "main c w1 = convert self (Some (args_dpi (parse_args c))) w1"
    by (rule main_init [OF Inr])
  have m2: "main c w2 = convert self (Some (args_dpi (parse_args c))) w2"
    by (rule main_init [OF i2])
  from convert_agree [OF f assms(3), of "args_dpi (parse_args c)"] Inr
  show ?thesis unfolding m1 m2 by blast
qed

text \<open>
  Two worlds that differ in everything the conversion does not read: the second one is
  the first one after a run, with the output already present and lines already printed.
\<close>

theorem conversion_deterministic_witness:
  "files sample_world (Path_of (cli_pdf_file (sample_cli ''slides.pdf'' None)))
     = files (snd (main (sample_cli ''slides.pdf'' None) sample_world))
         (Path_of (cli_pdf_file (sample_cli ''slides.pdf'' None)))
   \<and> cwd sample_world = cwd (snd (main (sample_cli ''slides.pdf'' None) sample_world))
   \<and> writer_opens sample_world
       = writer_opens (snd (main (sample_cli ''slides.pdf'' None) sample_world))
   \<and> stdout sample_world \<noteq> stdout (snd (main (sample_cli ''slides.pdf'' None) sample_world))
   \<and> fst (main (sample_cli ''slides.pdf'' None) sample_world) = Returned
   \<and> fst (main (sample_cli ''slides.pdf'' None)
             (snd (main (sample_cli ''slides.pdf'' None) sample_world))) = Returned
   \<and> files (snd (main (sample_cli ''slides.pdf'' None)
                    (snd (main (sample_cli ''slides.pdf'' None) sample_world)))) slides_mp4
       = files (snd (main (sample_cli ''slides.pdf'' None) sample_world)) slides_mp4"
proof -
  let ?c = "sample_cli ''slides.pdf'' None"
  let ?s = "sample_converter slides_pdf (1 / 2)"
  have i: "init (cli_pdf_file ?c) (cli_output ?c) (Some (PyFloat (args_duration (parse_args ?c))))
             (Some (args_fps (parse_args ?c))) sample_world = Inr ?s"
    by (rule init_sample_cli_default)
  have h2: "files sample_world (pdf_path ?s) = Some (PdfFile slides_pages)"
    by (simp add: sample_converter_def sample_files_slides)
  have h5: "writer_opens sample_world (output_path ?s) (fps ?s) (target_size [page_one, page_two])"
    by (simp add: sample_world_def)
  have ne: "[page_one, page_two] \<noteq> []" by simp
  have m: "main ?c sample_world =
     (Returned,
      sample_world\<lparr>files := (files sample_world)(output_path ?s \<mapsto>
                       VideoFile (final_video ?s [page_one, page_two] 15)),
        stdout := stdout sample_world @ [MsgReadingPdf (pdf_path ?s), MsgPageCount (length slides_pages),
                    MsgCreatingVideo (output_path ?s), MsgVideoDone (output_path ?s),
                    MsgConvertDone]\<rparr>)"
    unfolding main_init [OF i]
    by (rule convert_all_rendered [OF h2 slides_rendered ne h5 frames_half])
  have n: "Path_of (cli_pdf_file ?c) = slides_pdf"
    by (simp add: sample_cli_def path_of_slides)
  have d: "slides_pdf \<noteq> slides_mp4" by (simp add: slides_pdf_def slides_mp4_def)
  have o: "output_path ?s = slides_mp4" by (simp add: sample_converter_def)
  let ?w2 = "snd (main ?c sample_world)"
  have a1: "files sample_world (Path_of (cli_pdf_file ?c)) = files ?w2 (Path_of (cli_pdf_file ?c))"
    using d by (simp add: m n o)
  have a2: "cwd sample_world = cwd ?w2" by (simp add: m)
  have a3: "writer_opens sample_world = writer_opens ?w2" by (simp add: m)
  have a4: "stdout sample_world \<noteq> stdout ?w2" by (simp add: m)
  have r: "fst (main ?c sample_world) = Returned" by (simp add: m)
  from conversion_deterministic [OF a1 a2 a3] r i
  have "fst (main ?c ?w2) = Returned
      \<and> files (snd (main ?c ?w2)) slides_mp4 = files ?w2 slides_mp4"
    by (auto simp: o)
  with a1 a2 a3 a4 r show ?thesis by blast
qed


subsection \<open>Defaults\<close>

lemma init_output_default:
  assumes "init pdf None d r w = Inr self"
  shows "output_path self = joinpath (cwd w) (stem (Path_of pdf) @ ''.mp4'')"
  using assms by (auto simp: init_def Let_def split: if_splits)

lemma init_class_defaults:
  assumes "init pdf out None None w = Inr self"
  shows "duration_per_page self = PyInt 3 \<and> fps self = 30"
  using assms
  by (auto simp: init_def Let_def default_duration_per_page_def default_fps_def split: if_splits)

text \<open>
  Claim C9. The class defaults are a duration of 3 seconds per page, 30 fps and 150 DPI;
  the command line defaults are a duration of 0.5 seconds, 30 fps and 300 DPI; without an
  output path the output is the stem of the PDF with the suffix .mp4 in the current
  working directory.
\<close>

theorem defaults_differ_between_layers:
  "(init pdf out None None w = Inr self \<longrightarrow>
      duration_per_page self = PyInt 3 \<and> fps self = 30)
   \<and> convert self' None w = convert self' (Some 150) w
   \<and> pdf_to_images self' None w = pdf_to_images self' (Some 150) w
   \<and> args_duration (parse_args \<lparr>cli_pdf_file = pdf, cli_output = outp, cli_duration = None,
        cli_fps = f, cli_dpi = q\<rparr>) = Finite (1 / 2)
   \<and> args_dpi (parse_args \<lparr>cli_pdf_file = pdf, cli_output = outp, cli_duration = d,
        cli_fps = f, cli_dpi = None\<rparr>) = 300
   \<and> args_fps (parse_args \<lparr>cli_pdf_file = pdf, cli_output = outp, cli_duration = d,
        cli_fps = None, cli_dpi = q\<rparr>) = 30
   \<and> (init pdf None d' f' w = Inr self'' \<longrightarrow>
        output_path self'' = joinpath (cwd w) (stem (Path_of pdf) @ ''.mp4''))"
  using init_class_defaults [of pdf out w self] init_output_default [of pdf d' f' w self'']
    pdf_to_images_default [of self' None w]
  by (simp add: convert_default default_dpi_def parse_args_def)

theorem defaults_differ_between_layers_witness:
  "init ''slides.pdf'' None None None sample_world
     = Inr \<lparr>pdf_path = slides_pdf, output_path = slides_mp4, duration_per_page = PyInt 3, fps = 30\<rparr>
   \<and> joinpath (cwd sample_world) (stem (Path_of ''slides.pdf'') @ ''.mp4'')
       = \<lparr>anchored = True, parts = [''home'', ''user'', ''slides.mp4'']\<rparr>
   \<and> parse_args (sample_cli ''slides.pdf'' None)
       = \<lparr>args_pdf_file = ''slides.pdf'', args_output = None, args_duration = Finite (1 / 2),
          args_fps = 30, args_dpi = 300\<rparr>"
proof -
  let ?s = "\<lparr>pdf_path = slides_pdf, output_path = slides_mp4, duration_per_page = PyInt 3, fps = 30\<rparr>"
  have i: "init ''slides.pdf'' None None None sample_world = Inr ?s"
    by (simp add: init_def Let_def path_of_slides sample_files_slides default_output_slides
        default_duration_per_page_def default_fps_def)
  have j: "joinpath (cwd sample_world) (stem (Path_of ''slides.pdf'') @ ''.mp4'')
             = \<lparr>anchored = True, parts = [''home'', ''user'', ''slides.mp4'']\<rparr>"
    using defaults_differ_between_layers
            [where pdf = "''slides.pdf''" and out = None and w = sample_world and self = ?s
               and d' = None and f' = None and self'' = ?s] i
    by (simp add: slides_mp4_def)
  have p: "parse_args (sample_cli ''slides.pdf'' None)
       = \<lparr>args_pdf_file = ''slides.pdf'', args_output = None, args_duration = Finite (1 / 2),
          args_fps = 30, args_dpi = 300\<rparr>"
    by (simp add: parse_sample_cli)
  from i j p show ?thesis by blast
qed


subsection \<open>Durations shorter than a frame\<close>

lemma page_frames_nonpos: "k \<le> 0 \<Longrightarrow> concat (map (page_frames sz k) imgs) = []"
  by (simp add: page_frames_def)

text \<open>
  Claim C10, as amended. For a non-empty PDF whose pages render and a writer that opens,
  if the product fps * duration, as Python computes it (rounded to binary64 for a float
  duration), is a finite number below 1, then the repeat count per page is at most 0, and
  it is 0 when the product is moreover above -1; no frame is written, the conversion
  completes with exit status 0, and the output is a released video without frames.
\<close>

theorem short_duration_writes_no_frames:
  assumes "files w (pdf_path self) = Some (PdfFile pages)"
    and "pages \<noteq> []"
    and "map (\<lambda>p. render_page p dpi) pages = map Inr imgs"
    and "writer_opens w (output_path self) (fps self) (target_size imgs)"
    and "py_mul (fps self) (duration_per_page self) = Inr v"
    and "num_val v = Some x"
    and "x < 1"
  shows "\<exists>k. frames_per_page self = Inr k
           \<and> k \<le> 0
           \<and> (- 1 < x \<longrightarrow> k = 0)
           \<and> fst (convert self (Some dpi) w) = Returned
           \<and> exit_status (fst (convert self (Some dpi) w)) = 0
           \<and> files (snd (convert self (Some dpi) w)) (output_path self)
               = Some (VideoFile \<lparr>v_fps = fps self, v_size = target_size imgs, v_frames = [],
                                   v_released = True\<rparr>)"
proof -
  have "length imgs = length pages"
    using arg_cong [OF assms(3), of length] by simp
  then have ne: "imgs \<noteq> []" using assms(2) by auto
  have f: "frames_per_page self = Inr (py_trunc x)"
    by (rule frames_per_page_val [OF assms(5,6)])
  have k: "py_trunc x \<le> 0" by (rule py_trunc_below_one [OF assms(7)])
  have z: "- 1 < x \<longrightarrow> py_trunc x = 0"
    using py_trunc_small [OF _ assms(7)] by simp
  have vid: "final_video self imgs (py_trunc x)
             = \<lparr>v_fps = fps self, v_size = target_size imgs, v_frames = [], v_released = True\<rparr>"
    by (simp add: final_video_def page_frames_nonpos [OF k])
  from f k z vid show ?thesis
    by (simp add: convert_all_rendered [OF assms(1) assms(3) ne assms(4) f])
qed

lemma sample_product_small:
  "py_mul (fps (sample_converter slides_pdf (1 / 64)))
     (duration_per_page (sample_converter slides_pdf (1 / 64))) = Inr (PyFloat (Finite (15 / 32)))"
  by code_simp

theorem short_duration_writes_no_frames_witness:
  "files sample_world (pdf_path (sample_converter slides_pdf (1 / 64))) = Some (PdfFile slides_pages)
   \<and> slides_pages \<noteq> []
   \<and> map (\<lambda>p. render_page p 300) slides_pages = map Inr [page_one, page_two]
   \<and> py_mul (fps (sample_converter slides_pdf (1 / 64)))
        (duration_per_page (sample_converter slides_pdf (1 / 64))) = Inr (PyFloat (Finite (15 / 32)))
   \<and> (15 / 32 :: rat) < 1
   \<and> - 1 < (15 / 32 :: rat)
   \<and> frames_per_page (sample_converter slides_pdf (1 / 64)) = Inr 0
   \<and> fst (convert (sample_converter slides_pdf (1 / 64)) (Some 300) sample_world) = Returned
   \<and> exit_status (fst (convert (sample_converter slides_pdf (1 / 64)) (Some 300) sample_world)) = 0
   \<and> files (snd (convert (sample_converter slides_pdf (1 / 64)) (Some 300) sample_world)) slides_mp4
       = Some (VideoFile \<lparr>v_fps = 30, v_size = (1240, 1754), v_frames = [], v_released = True\<rparr>)"
proof -
  let ?s = "sample_converter slides_pdf (1 / 64)"
  have h1: "files sample_world (pdf_path ?s) = Some (PdfFile slides_pages)"
    by (simp add: sample_converter_def sample_files_slides)
  have h2: "slides_pages \<noteq> []" by (simp add: slides_pages_def)
  have h3: "map (\<lambda>p. render_page p 300) slides_pages = map Inr [page_one, page_two]"
    by (rule slides_rendered)
  have h4: "writer_opens sample_world (output_path ?s) (fps ?s) (target_size [page_one, page_two])"
    by (simp add: sample_world_def)
  have h5: "py_mul (fps ?s) (duration_per_page ?s) = Inr (PyFloat (Finite (15 / 32)))"
    by (rule sample_product_small)
  have h6: "num_val (PyFloat (Finite (15 / 32))) = Some (15 / 32)" by simp
  have h7: "(15 / 32 :: rat) < 1" by simp
  have h8: "- 1 < (15 / 32 :: rat)" by simp
  have o: "output_path ?s = slides_mp4" "fps ?s = 30" by (simp_all add: sample_converter_def)
  from short_duration_writes_no_frames [OF h1 h2 h3 h4 h5 h6 h7] h8
  have "frames_per_page ?s = Inr 0
      \<and> fst (convert ?s (Some 300) sample_world) = Returned
      \<and> exit_status (fst (convert ?s (Some 300) sample_world)) = 0
      \<and> files (snd (convert ?s (Some 300) sample_world)) slides_mp4
          = Some (VideoFile \<lparr>v_fps = 30, v_size = (1240, 1754), v_frames = [], v_released = True\<rparr>)"
    by (auto simp: o sample_target_size)
  with h1 h2 h3 h5 h7 h8 show ?thesis by blast
qed

lemma frames_minus_one: "frames_per_page (sample_converter slides_pdf (- 1)) = Inr (- 30)"
  by code_simp

lemma product_minus_one:
  "py_mul (fps (sample_converter slides_pdf (- 1)))
     (duration_per_page (sample_converter slides_pdf (- 1))) = Inr (PyFloat (Finite (- 30)))"
  by code_simp

lemma round_thirtieth: "round64 (1 / 30) = Finite (4803839602528529 / 144115188075855872)"
  by code_simp

lemma frames_thirtieth:
  "frames_per_page (sample_converter slides_pdf (4803839602528529 / 144115188075855872)) = Inr 1"
  by code_simp

text \<open>
  The claim as it was stated fails for a product of -1 or less: \<open>int\<close> truncates
  towards zero, so the repeat count for fps = 30 and a duration of -1 is -30, not 0. With
  the product of the two numbers it also fails just below 1: the binary64 value of 1/30
  times 30 is below 1, but the rounded product is 1.0 and one frame per page is written.
\<close>

theorem negative_duration_repeat_count:
  "files sample_world (pdf_path (sample_converter slides_pdf (- 1))) = Some (PdfFile slides_pages)
   \<and> py_mul (fps (sample_converter slides_pdf (- 1)))
        (duration_per_page (sample_converter slides_pdf (- 1))) = Inr (PyFloat (Finite (- 30)))
   \<and> (- 30 :: rat) < 1
   \<and> rat_of_int (fps (sample_converter slides_pdf (- 1))) * (- 1) < 1
   \<and> frames_per_page (sample_converter slides_pdf (- 1)) = Inr (- 30)
   \<and> frames_per_page (sample_converter slides_pdf (- 1)) \<noteq> Inr 0
   \<and> round64 (1 / 30) = Finite (4803839602528529 / 144115188075855872)
   \<and> rat_of_int (fps (sample_converter slides_pdf (4803839602528529 / 144115188075855872)))
        * (4803839602528529 / 144115188075855872) < 1
   \<and> frames_per_page (sample_converter slides_pdf (4803839602528529 / 144115188075855872)) = Inr 1
   \<and> files (snd (convert (sample_converter slides_pdf (4803839602528529 / 144115188075855872))
        (Some 300) sample_world)) slides_mp4
       = Some (VideoFile \<lparr>v_fps = 30, v_size = (1240, 1754),
            v_frames = [RGB2BGR (Resized page_one (1240, 1754)),
                        GRAY2BGR (Resized page_two (1240, 1754))],
            v_released = True\<rparr>)"
proof -
  let ?n = "sample_converter slides_pdf (- 1)"
  let ?t = "sample_converter slides_pdf (4803839602528529 / 144115188075855872)"
  have a: "files sample_world (pdf_path ?n) = Some (PdfFile slides_pages)"
    by (simp add: sample_converter_def sample_files_slides)
  have b: "(- 30 :: rat) < 1" "rat_of_int (fps ?n) * (- 1) < 1"
    by (simp_all add: sample_converter_def)
  have c: "frames_per_page ?n \<noteq> Inr 0" by (simp add: frames_minus_one)
  have d: "rat_of_int (fps ?t) * (4803839602528529 / 144115188075855872) < 1"
    by (simp add: sample_converter_def)
  have h1: "files sample_world (pdf_path ?t) = Some (PdfFile slides_pages)"
    by (simp add: sample_converter_def sample_files_slides)
  have h4: "writer_opens sample_world (output_path ?t) (fps ?t) (target_size [page_one, page_two])"
    by (simp add: sample_world_def)
  have ne: "[page_one, page_two] \<noteq> []" by simp
  have o: "output_path ?t = slides_mp4" by (simp add: sample_converter_def)
  have bgr: "to_bgr (Resized page_one (1240, 1754)) = RGB2BGR (Resized page_one (1240, 1754))"
            "to_bgr (Resized page_two (1240, 1754)) = GRAY2BGR (Resized page_two (1240, 1754))"
    by (simp_all add: to_bgr_def page_one_def page_two_def)
  have v: "final_video ?t [page_one, page_two] 1
             = \<lparr>v_fps = 30, v_size = (1240, 1754),
                v_frames = [RGB2BGR (Resized page_one (1240, 1754)),
                            GRAY2BGR (Resized page_two (1240, 1754))],
                v_released = True\<rparr>"
    by (simp add: final_video_def sample_target_size page_frames_def sample_converter_def bgr)
  have e: "files (snd (convert ?t (Some 300) sample_world)) slides_mp4
             = Some (VideoFile \<lparr>v_fps = 30, v_size = (1240, 1754),
                  v_frames = [RGB2BGR (Resized page_one (1240, 1754)),
                              GRAY2BGR (Resized page_two (1240, 1754))],
                  v_released = True\<rparr>)"
    using convert_all_rendered [OF h1 slides_rendered ne h4 frames_thirtieth, of 300]
    by (simp add: o v)
  from a product_minus_one b frames_minus_one c round_thirtieth d frames_thirtieth e
  show ?thesis by blast
qed

end
